theory Spec2Isabelle
  imports Complex_Main "HOL-Library.Multiset"
begin

section \<open>The benchmark harness\<close>

text \<open>
  A model of \<^verbatim>\<open>bench_all.py\<close>. The three engines are outside the program, so a run is
  described by the calls the harness makes on them, in order (the trace of the world),
  by a clock, and by what the engines answer, which is a parameter: how long each
  benchmarked call takes, how long every other call takes, and which handles the native
  library returns. An exception of Python is a value \<^verbatim>\<open>Inl\<close> of the result. Durations
  are reals. Progress messages on the console and the labels passed to the runners are
  left out: they do not influence any call or result.
\<close>

datatype py_error = IndexError | TypeError | ZeroDivisionError | ValueError

definition N_ITER :: int where
  "N_ITER = 7"

definition N_ITER_JOIN :: int where
  "N_ITER_JOIN = 5"

definition N_WARMUP :: nat where
  "N_WARMUP = 3"

definition median :: "'a::linorder list \<Rightarrow> py_error + 'a" where
  "median lst =
     (let s = sort lst
      in if length s div 2 < length s then Inr (s ! (length s div 2)) else Inl IndexError)"

definition lower_median :: "'a::linorder list \<Rightarrow> py_error + 'a" where
  "lower_median lst =
     (let s = sort lst
      in if s = [] then Inl IndexError else Inr (s ! ((length s - 1) div 2)))"

subsection \<open>The engines, seen from the harness\<close>

type_synonym handle = "nat option"

datatype agg_op = OP_SUM | OP_AVG | OP_COUNT

datatype duck_stmt =
    ResetThreads
  | SelectThreads
  | CreateTableCsv string string
  | CountRows
  | CreateOrReplaceR string
  | DropR

datatype pl_agg = PlSum string | PlMean string | PlLen

datatype pl_query =
    PlGroupBy "string list" "pl_agg list"
  | PlSort "string list"
  | PlJoin "string list" string

datatype event =
    PerfCounter
  | DuckConnect
  | DuckExecute duck_stmt
  | DuckClose
  | PlReadCsv string
  | PlRun pl_query
  | TeideLib
  | ArenaInit
  | SymInit
  | ReadCsv string handle
  | TableNrows handle
  | GraphNew handle handle
  | Scan handle string handle
  | ConstTable handle handle handle
  | ConstVec handle handle handle
  | SymIntern string nat
  | TableGetCol handle nat handle
  | Group handle "handle list" "agg_op list" "handle list" handle
  | SortOp handle handle "handle list" "nat list" handle
  | Join handle handle "handle list" handle "handle list" nat handle
  | Optimize handle handle handle
  | Execute handle handle handle
  | Release handle
  | GraphFree handle
  | SymDestroy
  | ArenaDestroyAll
  | WriteJson string

text \<open>
  The answers of the engines. The \<^verbatim>\<open>k\<close>-th benchmarked call of a run (a query execution
  of DuckDB or Polars, or \<^verbatim>\<open>execute\<close> of the native library) takes \<^verbatim>\<open>thunk_secs k\<close> seconds
  and, for the native library, returns \<^verbatim>\<open>exec_result k\<close>; every other call takes
  \<^verbatim>\<open>other_secs\<close> of its position in the trace; the \<^verbatim>\<open>k\<close>-th graph or node created is
  \<^verbatim>\<open>new_handle k\<close>. A handle is a pointer, \<^verbatim>\<open>None\<close> being the null pointer. The world
  counts the benchmarked calls in \<^verbatim>\<open>n_exec\<close> and the handles created in \<^verbatim>\<open>n_new\<close>.
\<close>

record env =
  thunk_secs :: "nat \<Rightarrow> real"
  other_secs :: "nat \<Rightarrow> real"
  exec_result :: "nat \<Rightarrow> handle"
  new_handle :: "nat \<Rightarrow> handle"
  csv_handle :: "string \<Rightarrow> handle"
  sym_id :: "string \<Rightarrow> nat"

record world =
  trace :: "event list"
  clock :: real
  n_exec :: nat
  n_new :: nat

definition emit :: "env \<Rightarrow> event \<Rightarrow> world \<Rightarrow> world" where
  "emit lib e w =
     w\<lparr>trace := trace w @ [e], clock := clock w + other_secs lib (length (trace w))\<rparr>"

definition perf_counter :: "world \<Rightarrow> real \<times> world" where
  "perf_counter w = (clock w, w\<lparr>trace := trace w @ [PerfCounter]\<rparr>)"

definition run_thunk :: "env \<Rightarrow> event \<Rightarrow> world \<Rightarrow> world" where
  "run_thunk lib e w =
     w\<lparr>trace := trace w @ [e], clock := clock w + thunk_secs lib (n_exec w),
       n_exec := Suc (n_exec w)\<rparr>"

definition fresh :: "env \<Rightarrow> (handle \<Rightarrow> event) \<Rightarrow> world \<Rightarrow> handle \<times> world" where
  "fresh lib ev w =
     (let h = new_handle lib (n_new w)
      in (h, (emit lib (ev h) w)\<lparr>n_new := Suc (n_new w)\<rparr>))"

definition py_bind ::
  "(py_error + 'a) \<times> world \<Rightarrow> ('a \<Rightarrow> world \<Rightarrow> (py_error + 'b) \<times> world)
   \<Rightarrow> (py_error + 'b) \<times> world" where
  "py_bind m f = (case m of (Inl e, w) \<Rightarrow> (Inl e, w) | (Inr a, w) \<Rightarrow> f a w)"

subsection \<open>Paths\<close>

definition path_join :: "string \<Rightarrow> string \<Rightarrow> string" where
  "path_join a b = (if a = [] \<or> last a = CHR ''/'' then a @ b else a @ ''/'' @ b)"

definition DATASETS :: "string \<Rightarrow> string" where
  "DATASETS script_dir = path_join script_dir ''datasets''"

definition CSV_GROUPBY :: "string \<Rightarrow> string" where
  "CSV_GROUPBY script_dir =
     path_join (path_join (DATASETS script_dir) ''G1_1e7_1e2_0_0'') ''G1_1e7_1e2_0_0.csv''"

definition CSV_JOIN_X :: "string \<Rightarrow> string" where
  "CSV_JOIN_X script_dir =
     path_join (path_join (DATASETS script_dir) ''h2oai_join_1e7'') ''J1_1e7_NA_0_0.csv''"

definition CSV_JOIN_Y :: "string \<Rightarrow> string" where
  "CSV_JOIN_Y script_dir =
     path_join (path_join (DATASETS script_dir) ''h2oai_join_1e7'') ''J1_1e7_1e7_0_0.csv''"

subsection \<open>Loops over an engine call\<close>

fun thunk_warmup :: "env \<Rightarrow> event \<Rightarrow> nat \<Rightarrow> world \<Rightarrow> world" where
  "thunk_warmup lib e 0 w = w"
| "thunk_warmup lib e (Suc n) w = thunk_warmup lib e n (run_thunk lib e w)"

fun thunk_timed :: "env \<Rightarrow> event \<Rightarrow> nat \<Rightarrow> real list \<Rightarrow> world \<Rightarrow> real list \<times> world" where
  "thunk_timed lib e 0 tms w = (tms, w)"
| "thunk_timed lib e (Suc n) tms w =
     (let (t0, w1) = perf_counter w;
          w2 = run_thunk lib e w1;
          (t1, w3) = perf_counter w2
      in thunk_timed lib e n (tms @ [(t1 - t0) * 1000]) w3)"

subsection \<open>DuckDB\<close>

definition duckdb_run :: "env \<Rightarrow> string \<Rightarrow> int \<Rightarrow> world \<Rightarrow> (py_error + real) \<times> world" where
  "duckdb_run lib sql n_iter w =
     (let w1 = thunk_warmup lib (DuckExecute (CreateOrReplaceR sql)) N_WARMUP w;
          (tms, w2) = thunk_timed lib (DuckExecute (CreateOrReplaceR sql)) (nat n_iter) [] w1;
          w3 = emit lib (DuckExecute DropR) w2
      in (median tms, w3))"

definition sql_q1 :: string where
  "sql_q1 = ''SELECT id1, SUM(v1) AS v1 FROM df GROUP BY id1''"

definition sql_q2 :: string where
  "sql_q2 = ''SELECT id1, id2, SUM(v1) AS v1 FROM df GROUP BY id1, id2''"

definition sql_q3 :: string where
  "sql_q3 = ''SELECT id3, SUM(v1) AS v1, AVG(v3) AS v3 FROM df GROUP BY id3''"

definition sql_q5 :: string where
  "sql_q5 = ''SELECT id6, SUM(v1) AS v1, SUM(v2) AS v2, SUM(v3) AS v3 FROM df GROUP BY id6''"

definition sql_q7 :: string where
  "sql_q7 = ''SELECT id1,id2,id3,id4,id5,id6, SUM(v3) AS v3, COUNT(*) AS cnt FROM df GROUP BY id1,id2,id3,id4,id5,id6''"

definition sql_s1 :: string where
  "sql_s1 = ''SELECT * FROM df ORDER BY id1''"

definition sql_s6 :: string where
  "sql_s6 = ''SELECT * FROM df ORDER BY id1, id2, id3''"

definition sql_j1 :: string where
  "sql_j1 = ''SELECT x.id1,x.id2,x.id3,x.v1,small.v2 FROM x INNER JOIN small ON x.id1=small.id1 AND x.id2=small.id2 AND x.id3=small.id3''"

definition bench_duckdb ::
  "env \<Rightarrow> string \<Rightarrow> world \<Rightarrow> (py_error + (string \<rightharpoonup> real)) \<times> world" where
  "bench_duckdb lib script_dir w0 =
     (let w1 = emit lib DuckConnect w0;
          w2 = emit lib (DuckExecute ResetThreads) w1;
          w3 = emit lib (DuckExecute SelectThreads) w2;
          (t0, w4) = perf_counter w3;
          w5 = emit lib (DuckExecute (CreateTableCsv ''df'' (CSV_GROUPBY script_dir))) w4;
          (t1, w6) = perf_counter w5;
          w7 = emit lib (DuckExecute CountRows) w6
      in py_bind (duckdb_run lib sql_q1 N_ITER w7) (\<lambda>q1 w.
         py_bind (duckdb_run lib sql_q2 N_ITER w) (\<lambda>q2 w.
         py_bind (duckdb_run lib sql_q3 N_ITER w) (\<lambda>q3 w.
         py_bind (duckdb_run lib sql_q5 N_ITER w) (\<lambda>q5 w.
         py_bind (duckdb_run lib sql_q7 N_ITER w) (\<lambda>q7 w.
         py_bind (duckdb_run lib sql_s1 N_ITER w) (\<lambda>s1 w.
         py_bind (duckdb_run lib sql_s6 N_ITER w) (\<lambda>s6 w.
           (let w8 = emit lib (DuckExecute (CreateTableCsv ''x'' (CSV_JOIN_X script_dir))) w;
                w9 = emit lib (DuckExecute (CreateTableCsv ''small'' (CSV_JOIN_Y script_dir))) w8
            in py_bind (duckdb_run lib sql_j1 N_ITER_JOIN w9) (\<lambda>j1 w.
                 (Inr [''q1'' \<mapsto> q1, ''q2'' \<mapsto> q2, ''q3'' \<mapsto> q3, ''q5'' \<mapsto> q5,
                       ''q7'' \<mapsto> q7, ''s1'' \<mapsto> s1, ''s6'' \<mapsto> s6, ''j1'' \<mapsto> j1],
                  emit lib DuckClose w)))))))))))"

subsection \<open>Polars\<close>

definition polars_run :: "env \<Rightarrow> pl_query \<Rightarrow> int \<Rightarrow> world \<Rightarrow> (py_error + real) \<times> world" where
  "polars_run lib query_fn n_iter w =
     (let w1 = thunk_warmup lib (PlRun query_fn) N_WARMUP w;
          (tms, w2) = thunk_timed lib (PlRun query_fn) (nat n_iter) [] w1
      in (median tms, w2))"

definition pl_q1 :: pl_query where
  "pl_q1 = PlGroupBy [''id1''] [PlSum ''v1'']"

definition pl_q2 :: pl_query where
  "pl_q2 = PlGroupBy [''id1'', ''id2''] [PlSum ''v1'']"

definition pl_q3 :: pl_query where
  "pl_q3 = PlGroupBy [''id3''] [PlSum ''v1'', PlMean ''v3'']"

definition pl_q5 :: pl_query where
  "pl_q5 = PlGroupBy [''id6''] [PlSum ''v1'', PlSum ''v2'', PlSum ''v3'']"

definition pl_q7 :: pl_query where
  "pl_q7 = PlGroupBy [''id1'', ''id2'', ''id3'', ''id4'', ''id5'', ''id6''] [PlSum ''v3'', PlLen]"

definition pl_s1 :: pl_query where
  "pl_s1 = PlSort [''id1'']"

definition pl_s6 :: pl_query where
  "pl_s6 = PlSort [''id1'', ''id2'', ''id3'']"

definition join_fn :: pl_query where
  "join_fn = PlJoin [''id1'', ''id2'', ''id3''] ''inner''"

definition bench_polars ::
  "env \<Rightarrow> string \<Rightarrow> world \<Rightarrow> (py_error + (string \<rightharpoonup> real)) \<times> world" where
  "bench_polars lib script_dir w0 =
     (let (t0, w1) = perf_counter w0;
          w2 = emit lib (PlReadCsv (CSV_GROUPBY script_dir)) w1;
          (t1, w3) = perf_counter w2
      in py_bind (polars_run lib pl_q1 N_ITER w3) (\<lambda>q1 w.
         py_bind (polars_run lib pl_q2 N_ITER w) (\<lambda>q2 w.
         py_bind (polars_run lib pl_q3 N_ITER w) (\<lambda>q3 w.
         py_bind (polars_run lib pl_q5 N_ITER w) (\<lambda>q5 w.
         py_bind (polars_run lib pl_q7 N_ITER w) (\<lambda>q7 w.
         py_bind (polars_run lib pl_s1 N_ITER w) (\<lambda>s1 w.
         py_bind (polars_run lib pl_s6 N_ITER w) (\<lambda>s6 w.
           (let w4 = emit lib (PlReadCsv (CSV_JOIN_X script_dir)) w;
                w5 = emit lib (PlReadCsv (CSV_JOIN_Y script_dir)) w4;
                w6 = thunk_warmup lib (PlRun join_fn) N_WARMUP w5;
                (tms, w7) = thunk_timed lib (PlRun join_fn) (nat N_ITER_JOIN) [] w6
            in py_bind (median tms, w7) (\<lambda>ms w.
                 (Inr [''q1'' \<mapsto> q1, ''q2'' \<mapsto> q2, ''q3'' \<mapsto> q3, ''q5'' \<mapsto> q5,
                       ''q7'' \<mapsto> q7, ''s1'' \<mapsto> s1, ''s6'' \<mapsto> s6, ''j1'' \<mapsto> ms],
                  w)))))))))))"

subsection \<open>Teide\<close>

definition owned :: "handle \<Rightarrow> bool" where
  "owned r = (case r of None \<Rightarrow> False | Some p \<Rightarrow> p \<noteq> 0 \<and> 32 \<le> p)"

definition read_csv :: "env \<Rightarrow> string \<Rightarrow> world \<Rightarrow> handle \<times> world" where
  "read_csv lib path w =
     (csv_handle lib path, emit lib (ReadCsv path (csv_handle lib path)) w)"

definition sym_intern :: "env \<Rightarrow> string \<Rightarrow> world \<Rightarrow> nat \<times> world" where
  "sym_intern lib name w = (sym_id lib name, emit lib (SymIntern name (sym_id lib name)) w)"

definition graph_new :: "env \<Rightarrow> handle \<Rightarrow> world \<Rightarrow> handle \<times> world" where
  "graph_new lib tbl = fresh lib (GraphNew tbl)"

definition scan :: "env \<Rightarrow> handle \<Rightarrow> string \<Rightarrow> world \<Rightarrow> handle \<times> world" where
  "scan lib g name = fresh lib (Scan g name)"

definition const_table :: "env \<Rightarrow> handle \<Rightarrow> handle \<Rightarrow> world \<Rightarrow> handle \<times> world" where
  "const_table lib g tbl = fresh lib (ConstTable g tbl)"

definition const_vec :: "env \<Rightarrow> handle \<Rightarrow> handle \<Rightarrow> world \<Rightarrow> handle \<times> world" where
  "const_vec lib g vec = fresh lib (ConstVec g vec)"

definition td_table_get_col :: "env \<Rightarrow> handle \<Rightarrow> nat \<Rightarrow> world \<Rightarrow> handle \<times> world" where
  "td_table_get_col lib tbl name_id = fresh lib (TableGetCol tbl name_id)"

definition td_group ::
  "env \<Rightarrow> handle \<Rightarrow> handle list \<Rightarrow> agg_op list \<Rightarrow> handle list \<Rightarrow> world \<Rightarrow> handle \<times> world" where
  "td_group lib g keys_arr ops_arr ins_arr = fresh lib (Group g keys_arr ops_arr ins_arr)"

definition sort_op ::
  "env \<Rightarrow> handle \<Rightarrow> handle \<Rightarrow> handle list \<Rightarrow> nat list \<Rightarrow> world \<Rightarrow> handle \<times> world" where
  "sort_op lib g table_node keys descs = fresh lib (SortOp g table_node keys descs)"

definition join ::
  "env \<Rightarrow> handle \<Rightarrow> handle \<Rightarrow> handle list \<Rightarrow> handle \<Rightarrow> handle list \<Rightarrow> nat \<Rightarrow> world
   \<Rightarrow> handle \<times> world" where
  "join lib g left_node left_keys right_node right_keys join_type =
     fresh lib (Join g left_node left_keys right_node right_keys join_type)"

definition optimize :: "env \<Rightarrow> handle \<Rightarrow> handle \<Rightarrow> world \<Rightarrow> handle \<times> world" where
  "optimize lib g root_node = fresh lib (Optimize g root_node)"

definition execute :: "env \<Rightarrow> handle \<Rightarrow> handle \<Rightarrow> world \<Rightarrow> handle \<times> world" where
  "execute lib g root_node w =
     (let r = exec_result lib (n_exec w) in (r, run_thunk lib (Execute g root_node r) w))"

definition release :: "env \<Rightarrow> handle \<Rightarrow> world \<Rightarrow> world" where
  "release lib h = emit lib (Release h)"

definition graph_free :: "env \<Rightarrow> handle \<Rightarrow> world \<Rightarrow> world" where
  "graph_free lib g = emit lib (GraphFree g)"

fun scan_all :: "env \<Rightarrow> handle \<Rightarrow> string list \<Rightarrow> world \<Rightarrow> handle list \<times> world" where
  "scan_all lib g [] w = ([], w)"
| "scan_all lib g (k # ks) w =
     (let (h, w1) = scan lib g k w;
          (hs, w2) = scan_all lib g ks w1
      in (h # hs, w2))"

fun teide_warmup :: "env \<Rightarrow> handle \<Rightarrow> handle \<Rightarrow> nat \<Rightarrow> world \<Rightarrow> world" where
  "teide_warmup lib g root_node 0 w = w"
| "teide_warmup lib g root_node (Suc n) w =
     (let (r, w1) = execute lib g root_node w;
          w2 = (if owned r then release lib r w1 else w1)
      in teide_warmup lib g root_node n w2)"

fun teide_timed ::
  "env \<Rightarrow> handle \<Rightarrow> handle \<Rightarrow> nat \<Rightarrow> real list \<Rightarrow> world \<Rightarrow> real list \<times> world" where
  "teide_timed lib g root_node 0 tms w = (tms, w)"
| "teide_timed lib g root_node (Suc n) tms w =
     (let (t0, w1) = perf_counter w;
          (r, w2) = execute lib g root_node w1;
          (t1, w3) = perf_counter w2;
          tms1 = tms @ [(t1 - t0) * 1000];
          w4 = (if owned r then release lib r w3 else w3)
      in teide_timed lib g root_node n tms1 w4)"

definition run_groupby ::
  "env \<Rightarrow> handle \<Rightarrow> string list \<Rightarrow> agg_op list \<Rightarrow> string list \<Rightarrow> int \<Rightarrow> world
   \<Rightarrow> (py_error + real) \<times> world" where
  "run_groupby lib tbl key_names agg_ops agg_col_names n_iter w0 =
     (let (g, w1) = graph_new lib tbl w0;
          (keys, w2) = scan_all lib g key_names w1;
          (agg_ins, w3) = scan_all lib g agg_col_names w2;
          na = length agg_ops;
          (res, w8) =
            (if na < length agg_ins then (Inl IndexError, w3)
             else
               (let ins_arr = agg_ins @ replicate (na - length agg_ins) None;
                    (root0, w4) = td_group lib g keys agg_ops ins_arr w3;
                    (root_node, w5) = optimize lib g root0 w4;
                    w6 = teide_warmup lib g root_node N_WARMUP w5;
                    (tms, w7) = teide_timed lib g root_node (nat n_iter) [] w6
                in (median tms, w7)))
      in (res, graph_free lib g w8))"

definition run_sort ::
  "env \<Rightarrow> handle \<Rightarrow> string list \<Rightarrow> nat list \<Rightarrow> int \<Rightarrow> world \<Rightarrow> (py_error + real) \<times> world" where
  "run_sort lib tbl col_names descs n_iter w0 =
     (let (g, w1) = graph_new lib tbl w0;
          (table_node, w2) = const_table lib g tbl w1;
          (keys, w3) = scan_all lib g col_names w2;
          (root0, w4) = sort_op lib g table_node keys descs w3;
          (root_node, w5) = optimize lib g root0 w4;
          w6 = teide_warmup lib g root_node N_WARMUP w5;
          (tms, w7) = teide_timed lib g root_node (nat n_iter) [] w6
      in (median tms, graph_free lib g w7))"

fun right_key_vecs :: "env \<Rightarrow> handle \<Rightarrow> handle \<Rightarrow> string list \<Rightarrow> world \<Rightarrow> handle list \<times> world" where
  "right_key_vecs lib g y [] w = ([], w)"
| "right_key_vecs lib g y (k # ks) w =
     (let (name_id, w1) = sym_intern lib k w;
          (col_vec, w2) = td_table_get_col lib y name_id w1;
          (node, w3) = const_vec lib g col_vec w2;
          (nodes, w4) = right_key_vecs lib g y ks w3
      in (node # nodes, w4))"

definition run_join :: "env \<Rightarrow> handle \<Rightarrow> handle \<Rightarrow> world \<Rightarrow> (py_error + real) \<times> world" where
  "run_join lib x y w0 =
     (let (g, w1) = graph_new lib x w0;
          (left_node, w2) = const_table lib g x w1;
          (right_node, w3) = const_table lib g y w2;
          (left_keys, w4) = scan_all lib g [''id1'', ''id2'', ''id3''] w3;
          (right_keys, w5) = right_key_vecs lib g y [''id1'', ''id2'', ''id3''] w4;
          (root0, w6) = join lib g left_node left_keys right_node right_keys 0 w5;
          (root_node, w7) = optimize lib g root0 w6;
          w8 = teide_warmup lib g root_node N_WARMUP w7;
          (tms, w9) = teide_timed lib g root_node (nat N_ITER_JOIN) [] w8
      in (median tms, graph_free lib g w9))"

definition bench_teide ::
  "env \<Rightarrow> string \<Rightarrow> world \<Rightarrow> (py_error + (string \<rightharpoonup> real)) \<times> world" where
  "bench_teide lib script_dir w0 =
     (let w1 = emit lib TeideLib w0;
          w2 = emit lib ArenaInit w1;
          w3 = emit lib SymInit w2;
          (t0, w4) = perf_counter w3;
          (tbl, w5) = read_csv lib (CSV_GROUPBY script_dir) w4;
          (t1, w6) = perf_counter w5;
          w7 = emit lib (TableNrows tbl) w6
      in py_bind (run_groupby lib tbl [''id1''] [OP_SUM] [''v1''] N_ITER w7) (\<lambda>q1 w.
         py_bind (run_groupby lib tbl [''id1'', ''id2''] [OP_SUM] [''v1''] N_ITER w) (\<lambda>q2 w.
         py_bind (run_groupby lib tbl [''id3''] [OP_SUM, OP_AVG] [''v1'', ''v3''] N_ITER w) (\<lambda>q3 w.
         py_bind (run_groupby lib tbl [''id6''] [OP_SUM, OP_SUM, OP_SUM] [''v1'', ''v2'', ''v3'']
                    N_ITER w) (\<lambda>q5 w.
         py_bind (run_groupby lib tbl [''id1'', ''id2'', ''id3'', ''id4'', ''id5'', ''id6'']
                    [OP_SUM, OP_COUNT] [''v3'', ''v1''] N_ITER w) (\<lambda>q7 w.
         py_bind (run_sort lib tbl [''id1''] [0] N_ITER w) (\<lambda>s1 w.
         py_bind (run_sort lib tbl [''id1'', ''id2'', ''id3''] [0, 0, 0] N_ITER w) (\<lambda>s6 w.
           (let (x, w8) = read_csv lib (CSV_JOIN_X script_dir) w;
                (y, w9) = read_csv lib (CSV_JOIN_Y script_dir) w8
            in py_bind (run_join lib x y w9) (\<lambda>ms w.
                 (let w10 = release lib y w;
                      w11 = release lib x w10;
                      w12 = release lib tbl w11;
                      w13 = emit lib SymDestroy w12;
                      w14 = emit lib ArenaDestroyAll w13
                  in (Inr [''q1'' \<mapsto> q1, ''q2'' \<mapsto> q2, ''q3'' \<mapsto> q3, ''q5'' \<mapsto> q5,
                           ''q7'' \<mapsto> q7, ''s1'' \<mapsto> s1, ''s6'' \<mapsto> s6, ''j1'' \<mapsto> ms],
                      w14))))))))))))"

definition new_events :: "world \<Rightarrow> world \<Rightarrow> event list" where
  "new_events w w' = drop (length (trace w)) (trace w')"

fun scan_events :: "env \<Rightarrow> handle \<Rightarrow> string list \<Rightarrow> nat \<Rightarrow> event list" where
  "scan_events lib g [] n = []"
| "scan_events lib g (k # ks) n = Scan g k (new_handle lib n) # scan_events lib g ks (Suc n)"

fun exec_events :: "env \<Rightarrow> handle \<Rightarrow> handle \<Rightarrow> nat \<Rightarrow> event list" where
  "exec_events lib g r k =
     Execute g r (exec_result lib k)
     # (if owned (exec_result lib k) then [Release (exec_result lib k)] else [])"

fun warm_events :: "env \<Rightarrow> handle \<Rightarrow> handle \<Rightarrow> nat \<Rightarrow> nat \<Rightarrow> event list" where
  "warm_events lib g r k 0 = []"
| "warm_events lib g r k (Suc n) = exec_events lib g r k @ warm_events lib g r (Suc k) n"

fun timed_events :: "env \<Rightarrow> handle \<Rightarrow> handle \<Rightarrow> nat \<Rightarrow> nat \<Rightarrow> event list" where
  "timed_events lib g r k 0 = []"
| "timed_events lib g r k (Suc n) =
     [PerfCounter, Execute g r (exec_result lib k), PerfCounter]
     @ (if owned (exec_result lib k) then [Release (exec_result lib k)] else [])
     @ timed_events lib g r (Suc k) n"

definition samples :: "env \<Rightarrow> nat \<Rightarrow> nat \<Rightarrow> real list" where
  "samples lib k n = map (\<lambda>i. thunk_secs lib (k + i) * 1000) [0..<n]"

definition run_events :: "event \<Rightarrow> nat \<Rightarrow> event list" where
  "run_events e n =
     replicate N_WARMUP e @ concat (replicate n [PerfCounter, e, PerfCounter])"

definition loop_events :: "env \<Rightarrow> handle \<Rightarrow> handle \<Rightarrow> nat \<Rightarrow> nat \<Rightarrow> event list" where
  "loop_events lib g r k n =
     warm_events lib g r k N_WARMUP @ timed_events lib g r (k + N_WARMUP) n"

definition groupby_events ::
  "env \<Rightarrow> handle \<Rightarrow> string list \<Rightarrow> agg_op list \<Rightarrow> string list \<Rightarrow> nat \<Rightarrow> nat \<Rightarrow> nat
   \<Rightarrow> event list" where
  "groupby_events lib tbl key_names agg_ops agg_col_names n k m =
     (let g = new_handle lib m;
          nk = length key_names;
          nc = length agg_col_names;
          keys = map (new_handle lib) [Suc m..<Suc m + nk];
          agg_ins = map (new_handle lib) [Suc m + nk..<Suc m + nk + nc];
          root0 = new_handle lib (Suc m + nk + nc);
          r = new_handle lib (Suc (Suc m) + nk + nc)
      in GraphNew tbl g # scan_events lib g key_names (Suc m)
         @ scan_events lib g agg_col_names (Suc m + nk)
         @ (if length agg_ops < nc then []
            else Group g keys agg_ops (agg_ins @ replicate (length agg_ops - nc) None) root0
                 # Optimize g root0 r # loop_events lib g r k n)
         @ [GraphFree g])"

definition sort_events ::
  "env \<Rightarrow> handle \<Rightarrow> string list \<Rightarrow> nat list \<Rightarrow> nat \<Rightarrow> nat \<Rightarrow> nat \<Rightarrow> event list" where
  "sort_events lib tbl col_names descs n k m =
     (let g = new_handle lib m;
          nk = length col_names;
          table_node = new_handle lib (Suc m);
          keys = map (new_handle lib) [Suc (Suc m)..<Suc (Suc m) + nk];
          root0 = new_handle lib (Suc (Suc m) + nk);
          r = new_handle lib (Suc (Suc (Suc m)) + nk)
      in GraphNew tbl g # ConstTable g tbl table_node # scan_events lib g col_names (Suc (Suc m))
         @ SortOp g table_node keys descs root0 # Optimize g root0 r # loop_events lib g r k n
         @ [GraphFree g])"

fun right_key_events :: "env \<Rightarrow> handle \<Rightarrow> handle \<Rightarrow> string list \<Rightarrow> nat \<Rightarrow> event list" where
  "right_key_events lib g y [] m = []"
| "right_key_events lib g y (k # ks) m =
     SymIntern k (sym_id lib k) # TableGetCol y (sym_id lib k) (new_handle lib m)
     # ConstVec g (new_handle lib m) (new_handle lib (Suc m))
     # right_key_events lib g y ks (Suc (Suc m))"

definition median_val :: "'a::linorder list \<Rightarrow> 'a" where
  "median_val lst = sort lst ! (length lst div 2)"

definition join_events :: "env \<Rightarrow> handle \<Rightarrow> handle \<Rightarrow> nat \<Rightarrow> nat \<Rightarrow> event list" where
  "join_events lib x y k m =
     (let g = new_handle lib m;
          left_node = new_handle lib (Suc m);
          right_node = new_handle lib (m + 2);
          left_keys = map (new_handle lib) [m + 3..<m + 6];
          right_keys = map (\<lambda>i. new_handle lib (m + 7 + 2 * i)) [0..<3];
          root0 = new_handle lib (m + 12);
          r = new_handle lib (m + 13)
      in GraphNew x g # ConstTable g x left_node # ConstTable g y right_node
         # scan_events lib g [''id1'', ''id2'', ''id3''] (m + 3)
         @ right_key_events lib g y [''id1'', ''id2'', ''id3''] (m + 6)
         @ Join g left_node left_keys right_node right_keys 0 root0 # Optimize g root0 r
         # loop_events lib g r k (nat N_ITER_JOIN)
         @ [GraphFree g])"

subsection \<open>Monitors\<close>

fun monitor :: "('s \<Rightarrow> event \<Rightarrow> 's option) \<Rightarrow> 's \<Rightarrow> event list \<Rightarrow> 's option" where
  "monitor step s [] = Some s"
| "monitor step s (e # es) = (case step s e of None \<Rightarrow> None | Some s' \<Rightarrow> monitor step s' es)"

definition release_step :: "handle option \<Rightarrow> event \<Rightarrow> handle option option" where
  "release_step pending e =
     (case e of
        Execute g r res \<Rightarrow>
          (if pending = None then Some (if owned res then Some res else None) else None)
      | Release h \<Rightarrow> (if pending = Some h then Some None else None)
      | GraphFree g \<Rightarrow> (if pending = None then Some None else None)
      | _ \<Rightarrow> Some pending)"

datatype plan_state =
    Idle
  | Building handle nat
  | Rooted handle handle nat
  | Planned handle handle nat nat

type_synonym plan_log = "(nat \<times> nat) list"

definition in_build :: "plan_state \<times> plan_log \<Rightarrow> handle \<Rightarrow> (plan_state \<times> plan_log) option" where
  "in_build s g =
     (case fst s of
        Building g' n \<Rightarrow> if g = g' then Some (Building g' (Suc n), snd s) else None
      | _ \<Rightarrow> None)"

definition root_built ::
  "plan_state \<times> plan_log \<Rightarrow> handle \<Rightarrow> handle \<Rightarrow> (plan_state \<times> plan_log) option" where
  "root_built s g h =
     (case fst s of
        Building g' n \<Rightarrow> if g = g' then Some (Rooted g h (Suc n), snd s) else None
      | _ \<Rightarrow> None)"

definition plan_step :: "plan_state \<times> plan_log \<Rightarrow> event \<Rightarrow> (plan_state \<times> plan_log) option" where
  "plan_step s e =
     (case e of
        GraphNew t g \<Rightarrow> (case fst s of Idle \<Rightarrow> Some (Building g 0, snd s) | _ \<Rightarrow> None)
      | Scan g k h \<Rightarrow> in_build s g
      | ConstTable g t h \<Rightarrow> in_build s g
      | ConstVec g v h \<Rightarrow> in_build s g
      | Group g ks ops ins h \<Rightarrow> root_built s g h
      | SortOp g t ks ds h \<Rightarrow> root_built s g h
      | Join g l lk r rk jt h \<Rightarrow> root_built s g h
      | Optimize g r0 r \<Rightarrow>
          (case fst s of
             Rooted g' h n \<Rightarrow> if g = g' \<and> r0 = h then Some (Planned g r n 0, snd s) else None
           | _ \<Rightarrow> None)
      | Execute g r res \<Rightarrow>
          (case fst s of
             Planned g' r' n c \<Rightarrow>
               if g = g' \<and> r = r' then Some (Planned g' r' n (Suc c), snd s) else None
           | _ \<Rightarrow> None)
      | GraphFree g \<Rightarrow>
          (case fst s of
             Planned g' r' n c \<Rightarrow> if g = g' then Some (Idle, snd s @ [(n, c)]) else None
           | _ \<Rightarrow> None)
      | _ \<Rightarrow> Some s)"

definition is_optimize :: "event \<Rightarrow> bool" where
  "is_optimize e = (case e of Optimize g r0 r \<Rightarrow> True | _ \<Rightarrow> False)"

definition is_execute :: "event \<Rightarrow> bool" where
  "is_execute e = (case e of Execute g r res \<Rightarrow> True | _ \<Rightarrow> False)"

definition tally_step :: "(event \<Rightarrow> bool) \<Rightarrow> bool \<times> nat \<times> nat \<Rightarrow> event \<Rightarrow> bool \<times> nat \<times> nat" where
  "tally_step p s e =
     (case s of (timing, warm, timed) \<Rightarrow>
        if e = PerfCounter then (\<not> timing, warm, timed)
        else if p e then (if timing then (timing, warm, Suc timed) else (timing, Suc warm, timed))
        else s)"

definition tally :: "(event \<Rightarrow> bool) \<Rightarrow> event list \<Rightarrow> nat \<times> nat" where
  "tally p evs = snd (foldl (tally_step p) (False, 0, 0) evs)"

definition graph_tally_step ::
  "(bool \<times> nat \<times> nat) \<times> (nat \<times> nat) list \<Rightarrow> event \<Rightarrow> (bool \<times> nat \<times> nat) \<times> (nat \<times> nat) list" where
  "graph_tally_step s e =
     (case s of ((timing, warm, timed), finished) \<Rightarrow>
        (case e of
           GraphFree g \<Rightarrow> ((timing, 0, 0), finished @ [(warm, timed)])
         | _ \<Rightarrow> (tally_step is_execute (timing, warm, timed) e, finished)))"

definition graph_tallies :: "event list \<Rightarrow> (nat \<times> nat) list" where
  "graph_tallies evs = snd (foldl graph_tally_step ((False, 0, 0), []) evs)"

definition teide_query_events :: "env \<Rightarrow> string \<Rightarrow> nat \<Rightarrow> nat \<Rightarrow> event list" where
  "teide_query_events lib script_dir k m =
     (let tbl = csv_handle lib (CSV_GROUPBY script_dir);
          x = csv_handle lib (CSV_JOIN_X script_dir);
          y = csv_handle lib (CSV_JOIN_Y script_dir)
      in [TeideLib, ArenaInit, SymInit, PerfCounter, ReadCsv (CSV_GROUPBY script_dir) tbl,
          PerfCounter, TableNrows tbl]
         @ groupby_events lib tbl [''id1''] [OP_SUM] [''v1''] 7 k m
         @ groupby_events lib tbl [''id1'', ''id2''] [OP_SUM] [''v1''] 7 (k + 10) (m + 5)
         @ groupby_events lib tbl [''id3''] [OP_SUM, OP_AVG] [''v1'', ''v3''] 7 (k + 20) (m + 11)
         @ groupby_events lib tbl [''id6''] [OP_SUM, OP_SUM, OP_SUM] [''v1'', ''v2'', ''v3''] 7
             (k + 30) (m + 17)
         @ groupby_events lib tbl [''id1'', ''id2'', ''id3'', ''id4'', ''id5'', ''id6'']
             [OP_SUM, OP_COUNT] [''v3'', ''v1''] 7 (k + 40) (m + 24)
         @ sort_events lib tbl [''id1''] [0] 7 (k + 50) (m + 35)
         @ sort_events lib tbl [''id1'', ''id2'', ''id3''] [0, 0, 0] 7 (k + 60) (m + 40)
         @ [ReadCsv (CSV_JOIN_X script_dir) x, ReadCsv (CSV_JOIN_Y script_dir) y]
         @ join_events lib x y (k + 70) (m + 47))"

definition teide_events :: "env \<Rightarrow> string \<Rightarrow> nat \<Rightarrow> nat \<Rightarrow> event list" where
  "teide_events lib script_dir k m =
     teide_query_events lib script_dir k m
     @ [Release (csv_handle lib (CSV_JOIN_Y script_dir)),
        Release (csv_handle lib (CSV_JOIN_X script_dir)),
        Release (csv_handle lib (CSV_GROUPBY script_dir)), SymDestroy, ArenaDestroyAll]"

definition duckdb_events :: "string \<Rightarrow> event list" where
  "duckdb_events script_dir =
     [DuckConnect, DuckExecute ResetThreads, DuckExecute SelectThreads, PerfCounter,
      DuckExecute (CreateTableCsv ''df'' (CSV_GROUPBY script_dir)), PerfCounter,
      DuckExecute CountRows]
     @ run_events (DuckExecute (CreateOrReplaceR sql_q1)) 7 @ [DuckExecute DropR]
     @ run_events (DuckExecute (CreateOrReplaceR sql_q2)) 7 @ [DuckExecute DropR]
     @ run_events (DuckExecute (CreateOrReplaceR sql_q3)) 7 @ [DuckExecute DropR]
     @ run_events (DuckExecute (CreateOrReplaceR sql_q5)) 7 @ [DuckExecute DropR]
     @ run_events (DuckExecute (CreateOrReplaceR sql_q7)) 7 @ [DuckExecute DropR]
     @ run_events (DuckExecute (CreateOrReplaceR sql_s1)) 7 @ [DuckExecute DropR]
     @ run_events (DuckExecute (CreateOrReplaceR sql_s6)) 7 @ [DuckExecute DropR]
     @ [DuckExecute (CreateTableCsv ''x'' (CSV_JOIN_X script_dir)),
        DuckExecute (CreateTableCsv ''small'' (CSV_JOIN_Y script_dir))]
     @ run_events (DuckExecute (CreateOrReplaceR sql_j1)) 5 @ [DuckExecute DropR]
     @ [DuckClose]"

definition polars_events :: "string \<Rightarrow> event list" where
  "polars_events script_dir =
     [PerfCounter, PlReadCsv (CSV_GROUPBY script_dir), PerfCounter]
     @ run_events (PlRun pl_q1) 7 @ run_events (PlRun pl_q2) 7 @ run_events (PlRun pl_q3) 7
     @ run_events (PlRun pl_q5) 7 @ run_events (PlRun pl_q7) 7 @ run_events (PlRun pl_s1) 7
     @ run_events (PlRun pl_s6) 7
     @ [PlReadCsv (CSV_JOIN_X script_dir), PlReadCsv (CSV_JOIN_Y script_dir)]
     @ run_events (PlRun join_fn) 5"

definition live_step :: "handle list \<Rightarrow> event \<Rightarrow> handle list" where
  "live_step live e =
     (case e of GraphNew t g \<Rightarrow> g # live | GraphFree g \<Rightarrow> remove1 g live | _ \<Rightarrow> live)"

definition live_graphs :: "event list \<Rightarrow> handle list" where
  "live_graphs evs = foldl live_step [] evs"

definition table_teardown :: "handle set \<Rightarrow> event \<Rightarrow> bool" where
  "table_teardown T e =
     (case e of Release h \<Rightarrow> h \<in> T | SymDestroy \<Rightarrow> True | ArenaDestroyAll \<Rightarrow> True
      | _ \<Rightarrow> False)"

definition join_build_events :: "env \<Rightarrow> handle \<Rightarrow> handle \<Rightarrow> nat \<Rightarrow> nat \<Rightarrow> event list" where
  "join_build_events lib x y k m = butlast (join_events lib x y k m)"

definition demo_lib :: env where
  "demo_lib =
     \<lparr>thunk_secs = (\<lambda>k. real k + 1), other_secs = (\<lambda>k. 0),
      exec_result = (\<lambda>k. if even k then Some (4096 + k) else None),
      new_handle = (\<lambda>k. Some (1024 + k)), csv_handle = (\<lambda>p. Some (64 + length p)),
      sym_id = length\<rparr>"

definition world0 :: world where
  "world0 = \<lparr>trace = [], clock = 0, n_exec = 0, n_new = 0\<rparr>"

subsection \<open>fmt and the summary table\<close>

definition fmt_text :: "(nat \<Rightarrow> real \<Rightarrow> string) \<Rightarrow> real \<Rightarrow> string" where
  "fmt_text fixed ms =
     (if ms < 1 then fixed 0 (ms * 1000) @ ''us''
      else if ms < 1000 then fixed 1 ms @ ''ms''
      else fixed 2 (ms / 1000) @ ''s'')"

definition fmt :: "(nat \<Rightarrow> real \<Rightarrow> string) \<Rightarrow> real option \<Rightarrow> py_error + string" where
  "fmt fixed ms = (case ms of None \<Rightarrow> Inl TypeError | Some v \<Rightarrow> Inr (fmt_text fixed v))"

definition truthy :: "real option \<Rightarrow> bool" where
  "truthy v = (case v of None \<Rightarrow> False | Some x \<Rightarrow> x \<noteq> 0)"

definition rjust :: "nat \<Rightarrow> string \<Rightarrow> string" where
  "rjust n s = replicate (n - length s) CHR '' '' @ s"

definition ljust :: "nat \<Rightarrow> string \<Rightarrow> string" where
  "ljust n s = s @ replicate (n - length s) CHR '' ''"

type_synonym results = "string \<rightharpoonup> (string \<rightharpoonup> real)"

definition results_get :: "results \<Rightarrow> string \<Rightarrow> string \<Rightarrow> real option" where
  "results_get results engine key =
     (case results engine of None \<Rightarrow> Map.empty key | Some res \<Rightarrow> res key)"

definition summary_cell :: "(nat \<Rightarrow> real \<Rightarrow> string) \<Rightarrow> real option \<Rightarrow> py_error + string" where
  "summary_cell fixed v = (if truthy v then fmt fixed v else Inr ''N/A'')"

definition row_text :: "string \<Rightarrow> string \<Rightarrow> string \<Rightarrow> string \<Rightarrow> string" where
  "row_text label ct cd cp =
     ''  '' @ ljust 28 label @ '' '' @ rjust 10 ct @ '' '' @ rjust 10 cd @ '' '' @ rjust 10 cp"

definition summary_row ::
  "(nat \<Rightarrow> real \<Rightarrow> string) \<Rightarrow> results \<Rightarrow> string \<Rightarrow> string \<Rightarrow> py_error + string" where
  "summary_row fixed results label key =
     (let t = results_get results ''teide'' key;
          d = results_get results ''duckdb'' key;
          p = results_get results ''polars'' key
      in case summary_cell fixed t of Inl e \<Rightarrow> Inl e | Inr ct \<Rightarrow>
         (case summary_cell fixed d of Inl e \<Rightarrow> Inl e | Inr cd \<Rightarrow>
         (case summary_cell fixed p of Inl e \<Rightarrow> Inl e | Inr cp \<Rightarrow>
            Inr (row_text label ct cd cp))))"

definition queries :: "char \<Rightarrow> (string \<times> string) list" where
  "queries dash =
     [(''q1 '' @ [dash] @ '' id1, SUM'', ''q1''),
      (''q2 '' @ [dash] @ '' id1+id2, SUM'', ''q2''),
      (''q3 '' @ [dash] @ '' id3, SUM+AVG'', ''q3''),
      (''q5 '' @ [dash] @ '' id6, 3xSUM'', ''q5''),
      (''q7 '' @ [dash] @ '' 6-key, SUM+COUNT'', ''q7''),
      (''sort s1 '' @ [dash] @ '' id1 ASC'', ''s1''),
      (''sort s6 '' @ [dash] @ '' 3-key ASC'', ''s6''),
      (''join j1 '' @ [dash] @ '' inner, 3-key'', ''j1'')]"

fun summary_rows ::
  "(nat \<Rightarrow> real \<Rightarrow> string) \<Rightarrow> results \<Rightarrow> (string \<times> string) list
   \<Rightarrow> string list \<times> py_error option" where
  "summary_rows fixed results [] = ([], None)"
| "summary_rows fixed results ((label, key) # rest) =
     (case summary_row fixed results label key of
        Inl e \<Rightarrow> ([], Some e)
      | Inr line \<Rightarrow>
          (let (ls, err) = summary_rows fixed results rest in (line # ls, err)))"

definition summary_header :: "char \<Rightarrow> string list" where
  "summary_header dash =
     [[CHR 0x0A, CHR 0x0A] @ replicate 80 CHR ''='',
      ''SUMMARY '' @ [dash] @ '' H2O.ai 10M rows'',
      replicate 80 CHR ''='',
      [CHR 0x0A] @ ''  '' @ ljust 28 ''Query'' @ '' '' @ rjust 10 ''Teide'' @ '' ''
        @ rjust 10 ''DuckDB'' @ '' '' @ rjust 10 ''Polars'',
      ''  '' @ replicate 28 CHR ''-'' @ '' '' @ replicate 10 CHR ''-'' @ '' ''
        @ replicate 10 CHR ''-'' @ '' '' @ replicate 10 CHR ''-'']"

subsection \<open>The main program\<close>

text \<open>
  The script body under \<^verbatim>\<open>__main__\<close>. \<^verbatim>\<open>path_exists\<close> stands for \<^verbatim>\<open>os.path.exists\<close>, \<^verbatim>\<open>fixed d x\<close>
  for the text of \<^verbatim>\<open>x\<close> with \<^verbatim>\<open>d\<close> decimals, and \<^verbatim>\<open>dash\<close> for the dash of the labels.
  \<^verbatim>\<open>stdout\<close> holds the lines that the script body itself prints. The results hold the
  three tables of medians; the version and thread entries that the real dictionary
  also has are never looked up by the summary and are left out. An exception escaping
  a benchmark function ends the run with status 1.
\<close>

record outcome =
  stdout :: "string list"
  exit_status :: int
  results_of :: results
  final_world :: world

definition main ::
  "env \<Rightarrow> (nat \<Rightarrow> real \<Rightarrow> string) \<Rightarrow> char \<Rightarrow> (string \<Rightarrow> bool) \<Rightarrow> string \<Rightarrow> world \<Rightarrow> outcome" where
  "main lib fixed dash path_exists script_dir w0 =
     (case find (\<lambda>path. \<not> path_exists path)
             [CSV_GROUPBY script_dir, CSV_JOIN_X script_dir, CSV_JOIN_Y script_dir] of
        Some path \<Rightarrow>
          \<lparr>stdout = [''Dataset not found: '' @ path], exit_status = 1,
           results_of = Map.empty, final_world = w0\<rparr>
      | None \<Rightarrow>
         (case bench_duckdb lib script_dir w0 of
            (Inl e, w1) \<Rightarrow>
              \<lparr>stdout = [], exit_status = 1, results_of = Map.empty, final_world = w1\<rparr>
          | (Inr rd, w1) \<Rightarrow>
         (case bench_polars lib script_dir w1 of
            (Inl e, w2) \<Rightarrow>
              \<lparr>stdout = [], exit_status = 1, results_of = [''duckdb'' \<mapsto> rd], final_world = w2\<rparr>
          | (Inr rp, w2) \<Rightarrow>
         (case bench_teide lib script_dir w2 of
            (Inl e, w3) \<Rightarrow>
              \<lparr>stdout = [], exit_status = 1,
               results_of = [''duckdb'' \<mapsto> rd, ''polars'' \<mapsto> rp], final_world = w3\<rparr>
          | (Inr rt, w3) \<Rightarrow>
              (let results = [''duckdb'' \<mapsto> rd, ''polars'' \<mapsto> rp, ''teide'' \<mapsto> rt];
                   (rows, err) = summary_rows fixed results (queries dash)
               in case err of
                    Some e \<Rightarrow>
                      \<lparr>stdout = summary_header dash @ rows, exit_status = 1,
                       results_of = results, final_world = w3\<rparr>
                  | None \<Rightarrow>
                      \<lparr>stdout = summary_header dash @ rows
                         @ [[CHR 0x0A] @ ''Results saved to '' @ path_join script_dir ''results.json''],
                       exit_status = 0, results_of = results,
                       final_world = emit lib (WriteJson (path_join script_dir ''results.json'')) w3\<rparr>)))))"


subsection \<open>The dataset generator\<close>

text \<open>
  \<^verbatim>\<open>generate_h2oai_groupby\<close> of \<^verbatim>\<open>gen/generate_data.py\<close>. Python's \<^verbatim>\<open>random\<close> module is a
  state machine given as a parameter: \<^verbatim>\<open>rand_seed\<close> is the state that \<^verbatim>\<open>random.seed\<close>
  installs for an integer seed, \<^verbatim>\<open>rand_below\<close> draws an index and \<^verbatim>\<open>rand_float\<close> a float,
  each returning the next state; \<^verbatim>\<open>randint\<close>, \<^verbatim>\<open>choice\<close> and \<^verbatim>\<open>uniform\<close> are built on them
  as in the library. Floats are reals; \<^verbatim>\<open>round(x, 6)\<close> and the text the csv writer
  produces for a float are the two functions of \<^verbatim>\<open>py_float\<close>. The world holds the state
  of the generator and the contents of the files; a row is written as its fields
  joined by commas and ended by CR LF, which is what \<^verbatim>\<open>csv.writer\<close> does for fields that
  need no quoting. Console output and the creation of the parent directory are left
  out.
\<close>

record 'g prng =
  rand_seed :: "int \<Rightarrow> 'g"
  rand_below :: "nat \<Rightarrow> 'g \<Rightarrow> nat \<times> 'g"
  rand_float :: "'g \<Rightarrow> real \<times> 'g"

record py_float =
  py_round :: "real \<Rightarrow> nat \<Rightarrow> real"
  py_repr :: "real \<Rightarrow> string"

record 'g gen_world =
  rng_state :: 'g
  files :: "string \<rightharpoonup> string"

datatype cell = S string | I int | F real

definition rbind ::
  "(py_error + 'a) \<times> 'w \<Rightarrow> ('a \<Rightarrow> 'w \<Rightarrow> (py_error + 'b) \<times> 'w) \<Rightarrow> (py_error + 'b) \<times> 'w" where
  "rbind m f = (case m of (Inl e, w) \<Rightarrow> (Inl e, w) | (Inr a, w) \<Rightarrow> f a w)"

definition seed_rng :: "'g prng \<Rightarrow> int \<Rightarrow> 'g gen_world \<Rightarrow> 'g gen_world" where
  "seed_rng rng s w = w\<lparr>rng_state := rand_seed rng s\<rparr>"

definition randbelow :: "'g prng \<Rightarrow> nat \<Rightarrow> 'g gen_world \<Rightarrow> nat \<times> 'g gen_world" where
  "randbelow rng n w =
     (let (v, g) = rand_below rng n (rng_state w) in (v, w\<lparr>rng_state := g\<rparr>))"

definition py_random :: "'g prng \<Rightarrow> 'g gen_world \<Rightarrow> real \<times> 'g gen_world" where
  "py_random rng w = (let (u, g) = rand_float rng (rng_state w) in (u, w\<lparr>rng_state := g\<rparr>))"

definition randint ::
  "'g prng \<Rightarrow> int \<Rightarrow> int \<Rightarrow> 'g gen_world \<Rightarrow> (py_error + int) \<times> 'g gen_world" where
  "randint rng a b w =
     (if b < a then (Inl ValueError, w)
      else (let (v, w1) = randbelow rng (nat (b - a + 1)) w in (Inr (a + int v), w1)))"

definition uniform :: "'g prng \<Rightarrow> real \<Rightarrow> real \<Rightarrow> 'g gen_world \<Rightarrow> real \<times> 'g gen_world" where
  "uniform rng a b w = (let (u, w1) = py_random rng w in (a + (b - a) * u, w1))"

definition choice ::
  "'g prng \<Rightarrow> cell list \<Rightarrow> 'g gen_world \<Rightarrow> (py_error + cell) \<times> 'g gen_world" where
  "choice rng xs w =
     (if xs = [] then (Inl IndexError, w)
      else (let (i, w1) = randbelow rng (length xs) w
            in (if i < length xs then Inr (xs ! i) else Inl IndexError, w1)))"

fun dec_nat :: "nat \<Rightarrow> string" where
  "dec_nat n =
     (if n < 10 then [''0123456789'' ! n]
      else dec_nat (n div 10) @ [''0123456789'' ! (n mod 10)])"

definition str_int :: "int \<Rightarrow> string" where
  "str_int i = (if i < 0 then ''-'' @ dec_nat (nat (- i)) else dec_nat (nat i))"

definition zfill :: "nat \<Rightarrow> string \<Rightarrow> string" where
  "zfill width s = replicate (width - length s) CHR ''0'' @ s"

definition pad_int :: "nat \<Rightarrow> int \<Rightarrow> string" where
  "pad_int width i =
     (if i < 0 then ''-'' @ zfill (width - 1) (dec_nat (nat (- i)))
      else zfill width (dec_nat (nat i)))"

fun join_commas :: "string list \<Rightarrow> string" where
  "join_commas [] = []"
| "join_commas [s] = s"
| "join_commas (s # t # rest) = s @ '','' @ join_commas (t # rest)"

definition field_text :: "py_float \<Rightarrow> cell \<Rightarrow> string" where
  "field_text fl c = (case c of S s \<Rightarrow> s | I i \<Rightarrow> str_int i | F x \<Rightarrow> py_repr fl x)"

definition open_w :: "string \<Rightarrow> 'g gen_world \<Rightarrow> 'g gen_world" where
  "open_w path w = w\<lparr>files := (files w)(path \<mapsto> [])\<rparr>"

definition write_text :: "string \<Rightarrow> string \<Rightarrow> 'g gen_world \<Rightarrow> 'g gen_world" where
  "write_text path s w =
     w\<lparr>files := (files w)(path \<mapsto> (case files w path of None \<Rightarrow> s | Some c \<Rightarrow> c @ s))\<rparr>"

definition csv_line :: "py_float \<Rightarrow> cell list \<Rightarrow> string" where
  "csv_line fl row = join_commas (map (field_text fl) row) @ [CHR 0x0D, CHR 0x0A]"

definition writerow :: "py_float \<Rightarrow> string \<Rightarrow> cell list \<Rightarrow> 'g gen_world \<Rightarrow> 'g gen_world" where
  "writerow fl path row w = write_text path (csv_line fl row) w"

record pools =
  id1_values :: "cell list"
  id2_values :: "cell list"
  id3_values :: "cell list"
  id4_values :: "cell list"
  id5_values :: "cell list"
  id6_values :: "cell list"

definition na_or_choice ::
  "'g prng \<Rightarrow> cell list \<Rightarrow> 'g gen_world \<Rightarrow> (py_error + cell) \<times> 'g gen_world" where
  "na_or_choice rng xs w =
     (let (u, w1) = py_random rng w
      in if u < 0.5 then (Inr (S []), w1) else choice rng xs w1)"

definition na_row ::
  "'g prng \<Rightarrow> py_float \<Rightarrow> pools \<Rightarrow> 'g gen_world \<Rightarrow> (py_error + cell list) \<times> 'g gen_world" where
  "na_row rng fl ps w =
     rbind (na_or_choice rng (id1_values ps) w) (\<lambda>c1 w.
     rbind (na_or_choice rng (id2_values ps) w) (\<lambda>c2 w.
     rbind (choice rng (id3_values ps) w) (\<lambda>c3 w.
     rbind (choice rng (id4_values ps) w) (\<lambda>c4 w.
     rbind (choice rng (id5_values ps) w) (\<lambda>c5 w.
     rbind (choice rng (id6_values ps) w) (\<lambda>c6 w.
     rbind (randint rng 1 5 w) (\<lambda>v1 w.
     rbind (randint rng 1 15 w) (\<lambda>v2 w.
       (let (v3, w1) = uniform rng 0 100 w
        in (Inr [c1, c2, c3, c4, c5, c6, I v1, I v2, F (py_round fl v3 6)], w1))))))))))"

definition plain_row ::
  "'g prng \<Rightarrow> py_float \<Rightarrow> pools \<Rightarrow> 'g gen_world \<Rightarrow> (py_error + cell list) \<times> 'g gen_world" where
  "plain_row rng fl ps w =
     rbind (choice rng (id1_values ps) w) (\<lambda>c1 w.
     rbind (choice rng (id2_values ps) w) (\<lambda>c2 w.
     rbind (choice rng (id3_values ps) w) (\<lambda>c3 w.
     rbind (choice rng (id4_values ps) w) (\<lambda>c4 w.
     rbind (choice rng (id5_values ps) w) (\<lambda>c5 w.
     rbind (choice rng (id6_values ps) w) (\<lambda>c6 w.
     rbind (randint rng 1 5 w) (\<lambda>v1 w.
     rbind (randint rng 1 15 w) (\<lambda>v2 w.
       (let (v3, w1) = uniform rng 0 100 w
        in (Inr [c1, c2, c3, c4, c5, c6, I v1, I v2, F (py_round fl v3 6)], w1))))))))))"

definition next_row ::
  "'g prng \<Rightarrow> py_float \<Rightarrow> pools \<Rightarrow> int \<Rightarrow> 'g gen_world
   \<Rightarrow> (py_error + cell list) \<times> 'g gen_world" where
  "next_row rng fl ps na_pct w =
     (if 0 < na_pct
      then rbind (randint rng 1 100 w) (\<lambda>v w.
             if v \<le> na_pct then na_row rng fl ps w else plain_row rng fl ps w)
      else plain_row rng fl ps w)"

fun write_rows ::
  "'g prng \<Rightarrow> py_float \<Rightarrow> string \<Rightarrow> pools \<Rightarrow> int \<Rightarrow> nat \<Rightarrow> 'g gen_world
   \<Rightarrow> (py_error + unit) \<times> 'g gen_world" where
  "write_rows rng fl path ps na_pct 0 w = (Inr (), w)"
| "write_rows rng fl path ps na_pct (Suc n) w =
     rbind (next_row rng fl ps na_pct w) (\<lambda>row w.
       write_rows rng fl path ps na_pct n (writerow fl path row w))"

definition batch_size :: int where
  "batch_size = 1000000"

function batches ::
  "'g prng \<Rightarrow> py_float \<Rightarrow> string \<Rightarrow> pools \<Rightarrow> int \<Rightarrow> int \<Rightarrow> int \<Rightarrow> 'g gen_world
   \<Rightarrow> (py_error + unit) \<times> 'g gen_world" where
  "batches rng fl path ps na_pct n_rows rows_written w =
     (if rows_written < n_rows
      then (let batch_end = min (rows_written + batch_size) n_rows
            in rbind (write_rows rng fl path ps na_pct (nat (batch_end - rows_written)) w)
                 (\<lambda>u w. batches rng fl path ps na_pct n_rows batch_end w))
      else (Inr (), w))"
  by pat_completeness auto

termination
  by (relation "measure (\<lambda>(rng, fl, path, ps, na_pct, n_rows, rows_written, w).
        nat (n_rows - rows_written))")
    (auto simp add: batch_size_def min_def)

definition header :: "cell list" where
  "header = [S ''id1'', S ''id2'', S ''id3'', S ''id4'', S ''id5'', S ''id6'', S ''v1'', S ''v2'',
             S ''v3'']"

definition generate_h2oai_groupby ::
  "'g prng \<Rightarrow> py_float \<Rightarrow> string \<Rightarrow> int \<Rightarrow> int \<Rightarrow> int \<Rightarrow> int \<Rightarrow> 'g gen_world
   \<Rightarrow> (py_error + unit) \<times> 'g gen_world" where
  "generate_h2oai_groupby rng fl output_path n_rows k na_pct seed w0 =
     (let w1 = seed_rng rng seed w0
      in if k = 0 then (Inl ZeroDivisionError, w1)
         else
           (let n_high = max (n_rows div k) k;
                ps = \<lparr>id1_values = map (\<lambda>i. S (''id'' @ pad_int 3 i)) [1..k],
                      id2_values = map (\<lambda>i. S (''id'' @ pad_int 3 i)) [1..k],
                      id3_values = map (\<lambda>i. S (''id'' @ pad_int 9 i)) [1..n_high],
                      id4_values = map I [1..k],
                      id5_values = map I [1..k],
                      id6_values = map I [1..n_high]\<rparr>;
                w2 = open_w output_path w1;
                w3 = writerow fl output_path header w2
            in batches rng fl output_path ps na_pct n_rows 0 w3))"

definition rng_local :: "('g gen_world \<Rightarrow> 'a \<times> 'g gen_world) \<Rightarrow> bool" where
  "rng_local f =
     (\<exists>h. \<forall>w. f w = (fst (h (rng_state w)), w\<lparr>rng_state := snd (h (rng_state w))\<rparr>))"

definition same_view :: "string \<Rightarrow> string \<Rightarrow> 'g gen_world \<Rightarrow> 'g gen_world \<Rightarrow> bool" where
  "same_view p1 p2 w1 w2 = (rng_state w1 = rng_state w2 \<and> files w1 p1 = files w2 p2)"

definition toy_rng :: "nat prng" where
  "toy_rng = \<lparr>rand_seed = (\<lambda>s. nat \<bar>s\<bar>), rand_below = (\<lambda>n g. ((5 * g + 3) mod n, Suc g)),
              rand_float = (\<lambda>g. (real (g mod 4) / 4, Suc g))\<rparr>"

definition toy_float :: py_float where
  "toy_float = \<lparr>py_round = (\<lambda>x n. x), py_repr = (\<lambda>x. str_int \<lfloor>x\<rfloor> @ ''.0'')\<rparr>"

section \<open>Properties of median\<close>

lemma sorted_filter_less_le:
  fixes s :: "'a::linorder list"
  assumes "sorted s" and "k < length s"
  shows "length (filter (\<lambda>x. x < s ! k) s) \<le> k"
    and "k < length (filter (\<lambda>x. x \<le> s ! k) s)"
proof -
  have "filter (\<lambda>x. x < s ! k) (drop k s) = []"
    using assms by (auto simp: filter_empty_conv in_set_conv_nth sorted_nth_mono not_less)
  then have "filter (\<lambda>x. x < s ! k) s = filter (\<lambda>x. x < s ! k) (take k s)"
    by (metis append_Nil2 append_take_drop_id filter_append)
  then show "length (filter (\<lambda>x. x < s ! k) s) \<le> k"
    by (metis length_filter_le length_take min.cobounded2 order_trans)
  have "filter (\<lambda>x. x \<le> s ! k) (take (Suc k) s) = take (Suc k) s"
    using assms by (auto simp: filter_id_conv in_set_conv_nth sorted_nth_mono)
  then have "length (filter (\<lambda>x. x \<le> s ! k) s) \<ge> length (take (Suc k) s)"
    by (metis append_take_drop_id filter_append length_append le_add1)
  then show "k < length (filter (\<lambda>x. x \<le> s ! k) s)"
    using assms by simp
qed

lemma length_filter_sort: "length (filter P (sort xs)) = length (filter P xs)"
proof -
  have "mset (filter P (sort xs)) = mset (filter P xs)" by simp
  then show ?thesis by (metis size_mset)
qed

text \<open>
  C1 (as stated, refuted): on an even count the harness does not return the lower
  middle element. For the samples 4, 1, 3, 2 it returns 3, where the lower median
  is 2.
\<close>

theorem median_even_counterexample:
  "median [4, 1, 3, 2 :: real] = Inr 3
   \<and> lower_median [4, 1, 3, 2 :: real] = Inr 2
   \<and> median [4, 1, 3, 2 :: real] \<noteq> lower_median [4, 1, 3, 2 :: real]"
  by (simp add: median_def lower_median_def)

text \<open>
  C1 (amended): for every non-empty sequence of samples, \<^verbatim>\<open>median\<close> returns the
  element at index \<^verbatim>\<open>len // 2\<close> of the sorted sequence. On an odd count this is the
  exact middle element (and agrees with the lower median); on an even count it is
  the upper of the two middle elements, the one right after the lower median. In
  both cases at most \<^verbatim>\<open>len // 2\<close> samples are strictly smaller than the result and
  more than \<^verbatim>\<open>len // 2\<close> samples are smaller or equal.
\<close>

theorem median_upper_middle:
  fixes lst :: "'a::linorder list"
  assumes "lst \<noteq> []"
  shows "median lst = Inr (sort lst ! (length lst div 2))
       \<and> (odd (length lst) \<longrightarrow> median lst = lower_median lst)
       \<and> (even (length lst) \<longrightarrow> median lst = Inr (sort lst ! Suc ((length lst - 1) div 2)))
       \<and> length (filter (\<lambda>x. x < sort lst ! (length lst div 2)) lst) \<le> length lst div 2
       \<and> length lst div 2 < length (filter (\<lambda>x. x \<le> sort lst ! (length lst div 2)) lst)"
proof -
  have n: "0 < length lst" using assms by simp
  then have k: "length lst div 2 < length (sort lst)" by simp
  have 1: "median lst = Inr (sort lst ! (length lst div 2))"
    using k by (simp add: median_def)
  have 2: "odd (length lst) \<longrightarrow> median lst = lower_median lst"
  proof
    assume "odd (length lst)"
    then have "(length lst - 1) div 2 = length lst div 2" by presburger
    moreover have "sort lst \<noteq> []"
      using assms by (metis length_0_conv length_sort)
    ultimately show "median lst = lower_median lst"
      using 1 by (simp add: lower_median_def Let_def)
  qed
  have 3: "even (length lst) \<longrightarrow> median lst = Inr (sort lst ! Suc ((length lst - 1) div 2))"
  proof
    assume "even (length lst)"
    with n have "Suc ((length lst - 1) div 2) = length lst div 2" by presburger
    then show "median lst = Inr (sort lst ! Suc ((length lst - 1) div 2))"
      using 1 by simp
  qed
  from sorted_filter_less_le[OF sorted_sort k]
  have 4: "length (filter (\<lambda>x. x < sort lst ! (length lst div 2)) lst) \<le> length lst div 2"
    and 5: "length lst div 2 < length (filter (\<lambda>x. x \<le> sort lst ! (length lst div 2)) lst)"
    by (simp_all add: length_filter_sort)
  from 1 2 3 4 5 show ?thesis by blast
qed

theorem median_upper_middle_witness:
  "[3, 1, 2 :: real] \<noteq> [] \<and> median [3, 1, 2 :: real] = Inr 2
   \<and> median [3, 1, 2 :: real] = lower_median [3, 1, 2 :: real]"
  using median_upper_middle [of "[3, 1, 2 :: real]"] by (simp add: lower_median_def)

lemma samples_0 [simp]: "samples lib k 0 = []"
  by (simp add: samples_def)

lemma samples_Suc: "samples lib k (Suc n) = (thunk_secs lib k * 1000) # samples lib (Suc k) n"
proof -
  have "[0..<Suc n] = 0 # map Suc [0..<n]"
    by (simp add: upt_conv_Cons map_Suc_upt del: upt_Suc)
  then show ?thesis
    by (simp add: samples_def comp_def del: upt_Suc)
qed

lemma length_samples [simp]: "length (samples lib k n) = n"
  by (simp add: samples_def)

subsection \<open>Primitive steps\<close>

lemma emit_simps [simp]:
  "trace (emit lib e w) = trace w @ [e]"
  "n_exec (emit lib e w) = n_exec w"
  "n_new (emit lib e w) = n_new w"
  by (simp_all add: emit_def)

lemma perf_counter_simps [simp]:
  "fst (perf_counter w) = clock w"
  "trace (snd (perf_counter w)) = trace w @ [PerfCounter]"
  "clock (snd (perf_counter w)) = clock w"
  "n_exec (snd (perf_counter w)) = n_exec w"
  "n_new (snd (perf_counter w)) = n_new w"
  by (simp_all add: perf_counter_def)

lemma run_thunk_simps [simp]:
  "trace (run_thunk lib e w) = trace w @ [e]"
  "clock (run_thunk lib e w) = clock w + thunk_secs lib (n_exec w)"
  "n_exec (run_thunk lib e w) = Suc (n_exec w)"
  "n_new (run_thunk lib e w) = n_new w"
  by (simp_all add: run_thunk_def)

lemma fresh_simps [simp]:
  "fst (fresh lib ev w) = new_handle lib (n_new w)"
  "trace (snd (fresh lib ev w)) = trace w @ [ev (new_handle lib (n_new w))]"
  "n_exec (snd (fresh lib ev w)) = n_exec w"
  "n_new (snd (fresh lib ev w)) = Suc (n_new w)"
  by (simp_all add: fresh_def Let_def)

lemma execute_simps [simp]:
  "fst (execute lib g r w) = exec_result lib (n_exec w)"
  "trace (snd (execute lib g r w)) = trace w @ [Execute g r (exec_result lib (n_exec w))]"
  "clock (snd (execute lib g r w)) = clock w + thunk_secs lib (n_exec w)"
  "n_exec (snd (execute lib g r w)) = Suc (n_exec w)"
  "n_new (snd (execute lib g r w)) = n_new w"
  by (simp_all add: execute_def Let_def)

lemma release_simps [simp]:
  "trace (release lib h w) = trace w @ [Release h]"
  "n_exec (release lib h w) = n_exec w"
  "n_new (release lib h w) = n_new w"
  by (simp_all add: release_def)

lemma graph_free_simps [simp]:
  "trace (graph_free lib g w) = trace w @ [GraphFree g]"
  "n_exec (graph_free lib g w) = n_exec w"
  "n_new (graph_free lib g w) = n_new w"
  by (simp_all add: graph_free_def)

lemma read_csv_simps [simp]:
  "fst (read_csv lib p w) = csv_handle lib p"
  "trace (snd (read_csv lib p w)) = trace w @ [ReadCsv p (csv_handle lib p)]"
  "n_exec (snd (read_csv lib p w)) = n_exec w"
  "n_new (snd (read_csv lib p w)) = n_new w"
  by (simp_all add: read_csv_def)

lemma sym_intern_simps [simp]:
  "fst (sym_intern lib k w) = sym_id lib k"
  "trace (snd (sym_intern lib k w)) = trace w @ [SymIntern k (sym_id lib k)]"
  "n_exec (snd (sym_intern lib k w)) = n_exec w"
  "n_new (snd (sym_intern lib k w)) = n_new w"
  by (simp_all add: sym_intern_def)

lemmas node_defs =
  graph_new_def scan_def const_table_def const_vec_def td_table_get_col_def td_group_def
  sort_op_def join_def optimize_def

subsection \<open>Loops\<close>

lemma thunk_warmup_simps [simp]:
  "trace (thunk_warmup lib e n w) = trace w @ replicate n e"
  "n_exec (thunk_warmup lib e n w) = n_exec w + n"
  "n_new (thunk_warmup lib e n w) = n_new w"
  by (induction n arbitrary: w; simp add: replicate_app_Cons_same)+

lemma thunk_timed_simps [simp]:
  "fst (thunk_timed lib e n tms w) = tms @ samples lib (n_exec w) n"
  "trace (snd (thunk_timed lib e n tms w)) =
     trace w @ concat (replicate n [PerfCounter, e, PerfCounter])"
  "n_exec (snd (thunk_timed lib e n tms w)) = n_exec w + n"
  "n_new (snd (thunk_timed lib e n tms w)) = n_new w"
  by (induction n arbitrary: w tms; simp add: split_def Let_def samples_Suc)+

lemma scan_all_simps [simp]:
  "fst (scan_all lib g ks w) = map (new_handle lib) [n_new w..<n_new w + length ks]"
  "trace (snd (scan_all lib g ks w)) = trace w @ scan_events lib g ks (n_new w)"
  "n_exec (snd (scan_all lib g ks w)) = n_exec w"
  "n_new (snd (scan_all lib g ks w)) = n_new w + length ks"
  by (induction ks arbitrary: w; simp add: split_def Let_def scan_def upt_conv_Cons del: upt_Suc)+

lemma teide_warmup_simps [simp]:
  "trace (teide_warmup lib g r n w) = trace w @ warm_events lib g r (n_exec w) n"
  "n_exec (teide_warmup lib g r n w) = n_exec w + n"
  "n_new (teide_warmup lib g r n w) = n_new w"
  by (induction n arbitrary: w; simp add: split_def Let_def)+

lemma teide_timed_simps [simp]:
  "fst (teide_timed lib g r n tms w) = tms @ samples lib (n_exec w) n"
  "trace (snd (teide_timed lib g r n tms w)) = trace w @ timed_events lib g r (n_exec w) n"
  "n_exec (snd (teide_timed lib g r n tms w)) = n_exec w + n"
  "n_new (snd (teide_timed lib g r n tms w)) = n_new w"
  by (induction n arbitrary: w tms; simp add: split_def Let_def samples_Suc)+

lemma median_nonempty: "lst \<noteq> [] \<Longrightarrow> median lst = Inr (median_val lst)"
  by (simp add: median_def median_val_def)

lemma median_Nil [simp]: "median [] = Inl IndexError"
  by (simp add: median_def)

lemma samples_eq_Nil [simp]: "samples lib k n = [] \<longleftrightarrow> n = 0"
  by (simp add: samples_def)

lemma samples_1 [simp]: "samples lib k (Suc 0) = [thunk_secs lib k * 1000]"
  by (simp add: samples_Suc)

lemma median_single [simp]: "median [x] = Inr x"
  by (simp add: median_def)

lemma new_events_append [simp]:
  "trace w' = trace w @ evs \<Longrightarrow> new_events w w' = evs"
  by (simp add: new_events_def)

lemma duckdb_run_simps [simp]:
  "fst (duckdb_run lib sql n_iter w) = median (samples lib (n_exec w + N_WARMUP) (nat n_iter))"
  "trace (snd (duckdb_run lib sql n_iter w)) =
     trace w @ run_events (DuckExecute (CreateOrReplaceR sql)) (nat n_iter) @ [DuckExecute DropR]"
  "n_exec (snd (duckdb_run lib sql n_iter w)) = n_exec w + N_WARMUP + nat n_iter"
  "n_new (snd (duckdb_run lib sql n_iter w)) = n_new w"
  by (simp_all add: duckdb_run_def split_def Let_def run_events_def)

lemma polars_run_simps [simp]:
  "fst (polars_run lib q n_iter w) = median (samples lib (n_exec w + N_WARMUP) (nat n_iter))"
  "trace (snd (polars_run lib q n_iter w)) = trace w @ run_events (PlRun q) (nat n_iter)"
  "n_exec (snd (polars_run lib q n_iter w)) = n_exec w + N_WARMUP + nat n_iter"
  "n_new (snd (polars_run lib q n_iter w)) = n_new w"
  by (simp_all add: polars_run_def split_def Let_def run_events_def)

lemma run_groupby_simps [simp]:
  "fst (run_groupby lib tbl ks ops cs n_iter w) =
     (if length ops < length cs then Inl IndexError
      else median (samples lib (n_exec w + N_WARMUP) (nat n_iter)))"
  "trace (snd (run_groupby lib tbl ks ops cs n_iter w)) =
     trace w @ groupby_events lib tbl ks ops cs (nat n_iter) (n_exec w) (n_new w)"
  "n_exec (snd (run_groupby lib tbl ks ops cs n_iter w)) =
     (if length ops < length cs then n_exec w else n_exec w + N_WARMUP + nat n_iter)"
  "n_new (snd (run_groupby lib tbl ks ops cs n_iter w)) =
     (if length ops < length cs then Suc (n_new w) + length ks + length cs
      else Suc (Suc (Suc (n_new w))) + length ks + length cs)"
  by (auto simp add: run_groupby_def split_def Let_def groupby_events_def loop_events_def node_defs)

lemma run_sort_simps [simp]:
  "fst (run_sort lib tbl cs ds n_iter w) = median (samples lib (n_exec w + N_WARMUP) (nat n_iter))"
  "trace (snd (run_sort lib tbl cs ds n_iter w)) =
     trace w @ sort_events lib tbl cs ds (nat n_iter) (n_exec w) (n_new w)"
  "n_exec (snd (run_sort lib tbl cs ds n_iter w)) = n_exec w + N_WARMUP + nat n_iter"
  "n_new (snd (run_sort lib tbl cs ds n_iter w)) = Suc (Suc (Suc (Suc (n_new w)))) + length cs"
  by (simp_all add: run_sort_def split_def Let_def sort_events_def loop_events_def node_defs)

lemma right_key_vecs_simps [simp]:
  "fst (right_key_vecs lib g y ks w) = map (\<lambda>i. new_handle lib (Suc (n_new w + 2 * i))) [0..<length ks]"
  "trace (snd (right_key_vecs lib g y ks w)) = trace w @ right_key_events lib g y ks (n_new w)"
  "n_exec (snd (right_key_vecs lib g y ks w)) = n_exec w"
  "n_new (snd (right_key_vecs lib g y ks w)) = n_new w + 2 * length ks"
proof (induction ks arbitrary: w)
  case Nil
  {
    case 1 show ?case by simp
  next
    case 2 show ?case by simp
  next
    case 3 show ?case by simp
  next
    case 4 show ?case by simp
  }
next
  case (Cons k ks)
  {
    case 1
    have "[0..<Suc (length ks)] = 0 # map Suc [0..<length ks]"
      by (simp add: upt_conv_Cons map_Suc_upt del: upt_Suc)
    then show ?case
      by (simp add: split_def Let_def node_defs Cons.IH comp_def del: upt_Suc)
  next
    case 2 show ?case by (simp add: split_def Let_def node_defs Cons.IH)
  next
    case 3 show ?case by (simp add: split_def Let_def node_defs Cons.IH)
  next
    case 4 show ?case by (simp add: split_def Let_def node_defs Cons.IH)
  }
qed

lemma run_join_simps [simp]:
  "fst (run_join lib x y w) = median (samples lib (n_exec w + N_WARMUP) (nat N_ITER_JOIN))"
  "trace (snd (run_join lib x y w)) = trace w @ join_events lib x y (n_exec w) (n_new w)"
  "n_exec (snd (run_join lib x y w)) = n_exec w + N_WARMUP + nat N_ITER_JOIN"
  "n_new (snd (run_join lib x y w)) = n_new w + 14"
  by (simp_all add: run_join_def split_def Let_def join_events_def loop_events_def node_defs
      eval_nat_numeral)

lemma monitor_append:
  "monitor step s (xs @ ys) =
     (case monitor step s xs of None \<Rightarrow> None | Some s' \<Rightarrow> monitor step s' ys)"
  by (induction xs arbitrary: s) (auto split: option.splits)

lemma monitor_append_Some [simp]:
  "monitor step s xs = Some s' \<Longrightarrow> monitor step s (xs @ ys) = monitor step s' ys"
  by (simp add: monitor_append)

subsection \<open>The release monitor over the loops\<close>

lemma release_exec_events [simp]:
  "monitor release_step None (exec_events lib g r k) = Some None"
  by (simp add: release_step_def)

lemma release_warm_events [simp]:
  "monitor release_step None (warm_events lib g r k n) = Some None"
  by (induction n arbitrary: k) (simp_all del: exec_events.simps)

lemma release_timed_events [simp]:
  "monitor release_step None (timed_events lib g r k n) = Some None"
  by (induction n arbitrary: k) (simp_all add: release_step_def)

lemma release_loop_events [simp]:
  "monitor release_step None (loop_events lib g r k n) = Some None"
  by (simp add: loop_events_def)

lemma release_scan_events [simp]:
  "monitor release_step s (scan_events lib g ks m) = Some s"
  by (induction ks arbitrary: m) (simp_all add: release_step_def)

lemma release_right_key_events [simp]:
  "monitor release_step s (right_key_events lib g y ks m) = Some s"
  by (induction ks arbitrary: m) (simp_all add: release_step_def)

lemma release_groupby_events:
  "monitor release_step None (groupby_events lib tbl ks ops cs n k m) = Some None"
  by (simp add: groupby_events_def Let_def release_step_def)

lemma release_sort_events:
  "monitor release_step None (sort_events lib tbl cs ds n k m) = Some None"
  by (simp add: sort_events_def Let_def release_step_def)

lemma release_join_events:
  "monitor release_step None (join_events lib x y k m) = Some None"
  by (simp add: join_events_def Let_def release_step_def
      del: right_key_events.simps scan_events.simps)

subsection \<open>The plan monitor over the loops\<close>

lemma plan_exec_events [simp]:
  "monitor plan_step (Planned g r b c, d) (exec_events lib g r k)
     = Some (Planned g r b (Suc c), d)"
  by (simp add: plan_step_def)

lemma plan_warm_events [simp]:
  "monitor plan_step (Planned g r b c, d) (warm_events lib g r k n)
     = Some (Planned g r b (c + n), d)"
  by (induction n arbitrary: k c) (simp_all del: exec_events.simps)

lemma plan_timed_events [simp]:
  "monitor plan_step (Planned g r b c, d) (timed_events lib g r k n)
     = Some (Planned g r b (c + n), d)"
  by (induction n arbitrary: k c) (simp_all add: plan_step_def)

lemma plan_loop_events [simp]:
  "monitor plan_step (Planned g r b c, d) (loop_events lib g r k n)
     = Some (Planned g r b (c + N_WARMUP + n), d)"
  by (simp add: loop_events_def)

lemma plan_scan_events [simp]:
  "monitor plan_step (Building g b, d) (scan_events lib g ks m)
     = Some (Building g (b + length ks), d)"
  by (induction ks arbitrary: m b) (simp_all add: plan_step_def in_build_def)

lemma plan_right_key_events [simp]:
  "monitor plan_step (Building g b, d) (right_key_events lib g y ks m)
     = Some (Building g (b + length ks), d)"
  by (induction ks arbitrary: m b) (simp_all add: plan_step_def in_build_def)

lemma plan_groupby_events:
  "length cs \<le> length ops \<Longrightarrow>
   monitor plan_step (Idle, d) (groupby_events lib tbl ks ops cs n k m)
     = Some (Idle, d @ [(length ks + length cs + 1, N_WARMUP + n)])"
  by (simp add: groupby_events_def Let_def plan_step_def in_build_def root_built_def)

lemma plan_sort_events:
  "monitor plan_step (Idle, d) (sort_events lib tbl cs ds n k m)
     = Some (Idle, d @ [(length cs + 2, N_WARMUP + n)])"
  by (simp add: sort_events_def Let_def plan_step_def in_build_def root_built_def)

lemma plan_join_events:
  "monitor plan_step (Idle, d) (join_events lib x y k m)
     = Some (Idle, d @ [(9, N_WARMUP + nat N_ITER_JOIN)])"
  by (simp add: join_events_def Let_def plan_step_def in_build_def root_built_def
      del: right_key_events.simps scan_events.simps)

subsection \<open>Counting the optimisation passes\<close>

lemma opt_scan_events [simp]: "filter is_optimize (scan_events lib g ks m) = []"
  by (induction ks arbitrary: m) (simp_all add: is_optimize_def)

lemma opt_right_key_events [simp]: "filter is_optimize (right_key_events lib g y ks m) = []"
  by (induction ks arbitrary: m) (simp_all add: is_optimize_def)

lemma opt_warm_events [simp]: "filter is_optimize (warm_events lib g r k n) = []"
  by (induction n arbitrary: k) (simp_all add: is_optimize_def)

lemma opt_timed_events [simp]: "filter is_optimize (timed_events lib g r k n) = []"
  by (induction n arbitrary: k) (simp_all add: is_optimize_def)

lemma opt_loop_events [simp]: "filter is_optimize (loop_events lib g r k n) = []"
  by (simp add: loop_events_def)

lemma opt_groupby_events:
  "length cs \<le> length ops \<Longrightarrow>
   length (filter is_optimize (groupby_events lib tbl ks ops cs n k m)) = 1"
  by (simp add: groupby_events_def Let_def is_optimize_def)

lemma opt_sort_events:
  "length (filter is_optimize (sort_events lib tbl cs ds n k m)) = 1"
  by (simp add: sort_events_def Let_def is_optimize_def)

lemma opt_join_events:
  "length (filter is_optimize (join_events lib x y k m)) = 1"
  by (simp add: join_events_def Let_def is_optimize_def
      del: right_key_events.simps scan_events.simps)

subsection \<open>Tallies over the loops\<close>

lemma tally_replicate:
  "e \<noteq> PerfCounter \<Longrightarrow>
   foldl (tally_step p) (False, u, t) (replicate n e) = (False, if p e then u + n else u, t)"
  by (induction n arbitrary: u) (simp_all add: tally_step_def)

lemma tally_timed_replicate:
  "e \<noteq> PerfCounter \<Longrightarrow>
   foldl (tally_step p) (False, u, t) (concat (replicate n [PerfCounter, e, PerfCounter]))
     = (False, u, if p e then t + n else t)"
  by (induction n arbitrary: t) (simp_all add: tally_step_def)

lemma tally_run_events:
  "e \<noteq> PerfCounter \<Longrightarrow>
   foldl (tally_step p) (False, u, t) (run_events e n)
     = (False, if p e then u + N_WARMUP else u, if p e then t + n else t)"
  by (simp add: run_events_def tally_replicate tally_timed_replicate)

lemma tally_warm_events:
  "foldl (tally_step is_execute) (False, u, t) (warm_events lib g r k n) = (False, u + n, t)"
  by (induction n arbitrary: u k) (simp_all add: tally_step_def is_execute_def)

lemma tally_timed_events:
  "foldl (tally_step is_execute) (False, u, t) (timed_events lib g r k n) = (False, u, t + n)"
  by (induction n arbitrary: t k) (simp_all add: tally_step_def is_execute_def)

lemma tally_loop_events:
  "foldl (tally_step is_execute) (False, u, t) (loop_events lib g r k n)
     = (False, u + N_WARMUP, t + n)"
  by (simp add: loop_events_def tally_warm_events tally_timed_events)

lemma tally_scan_events:
  "foldl (tally_step is_execute) s (scan_events lib g ks m) = s"
  by (induction ks arbitrary: m) (simp_all add: tally_step_def is_execute_def split: prod.splits)

lemma tally_right_key_events:
  "foldl (tally_step is_execute) s (right_key_events lib g y ks m) = s"
  by (induction ks arbitrary: m) (simp_all add: tally_step_def is_execute_def split: prod.splits)

lemma tally_groupby_events:
  "length cs \<le> length ops \<Longrightarrow>
   tally is_execute (groupby_events lib tbl ks ops cs n k m) = (N_WARMUP, n)"
  by (simp add: tally_def groupby_events_def Let_def tally_scan_events tally_loop_events
      tally_step_def is_execute_def)

lemma tally_sort_events:
  "tally is_execute (sort_events lib tbl cs ds n k m) = (N_WARMUP, n)"
  by (simp add: tally_def sort_events_def Let_def tally_scan_events tally_loop_events
      tally_step_def is_execute_def)

lemma tally_join_events:
  "tally is_execute (join_events lib x y k m) = (N_WARMUP, nat N_ITER_JOIN)"
  by (simp add: tally_def join_events_def Let_def tally_scan_events tally_right_key_events
      tally_loop_events tally_step_def is_execute_def
      del: right_key_events.simps scan_events.simps)

lemma tally_run_events_eq:
  "e \<noteq> PerfCounter \<Longrightarrow> tally (\<lambda>e'. e' = e) (run_events e n) = (N_WARMUP, n)"
  by (simp add: tally_def tally_run_events)

lemma tally_run_events_drop:
  "e \<noteq> PerfCounter \<Longrightarrow> e \<noteq> e' \<Longrightarrow> e' \<noteq> PerfCounter \<Longrightarrow>
   tally (\<lambda>x. x = e) (run_events e n @ [e']) = (N_WARMUP, n)"
  by (simp add: tally_def tally_run_events tally_step_def)

lemma samples_map: "samples lib k n = map (\<lambda>i. thunk_secs lib (k + i) * 1000) [0..<n]"
  by (simp add: samples_def)

text \<open>
  C3: in \<^verbatim>\<open>run_groupby\<close>, \<^verbatim>\<open>run_sort\<close> and the join block, every \<^verbatim>\<open>execute\<close> that returns
  an owned handle (non-null, at least 32) is followed by one \<^verbatim>\<open>release\<close> of that handle
  before the next \<^verbatim>\<open>execute\<close> and before \<^verbatim>\<open>graph_free\<close>, in warm-up and in measured
  iterations alike, and nothing else is released: the release monitor accepts the
  calls each of them makes and ends with no pending handle.
\<close>

theorem results_released_before_next_execute:
  "monitor release_step None
     (new_events w (snd (run_groupby lib tbl key_names agg_ops agg_col_names n_iter w)))
     = Some None
   \<and> monitor release_step None (new_events w (snd (run_sort lib tbl col_names descs n_iter w)))
     = Some None
   \<and> monitor release_step None (new_events w (snd (run_join lib x y w))) = Some None"
  by (simp add: release_groupby_events release_sort_events release_join_events)

lemma py_bind_unfold:
  "py_bind m f = (case fst m of Inl e \<Rightarrow> (Inl e, snd m) | Inr a \<Rightarrow> f a (snd m))"
  by (cases m) (simp add: py_bind_def split: sum.splits)

lemma median_samples [simp]:
  "n \<noteq> 0 \<Longrightarrow> median (samples lib k n) = Inr (median_val (samples lib k n))"
  by (simp add: median_nonempty)

lemma bench_teide_trace:
  "trace (snd (bench_teide lib script_dir w))
     = trace w @ teide_events lib script_dir (n_exec w) (n_new w)"
  by (simp add: bench_teide_def teide_events_def teide_query_events_def py_bind_unfold split_def Let_def
      N_ITER_def N_ITER_JOIN_def N_WARMUP_def eval_nat_numeral)

lemma bench_duckdb_trace:
  "trace (snd (bench_duckdb lib script_dir w)) = trace w @ duckdb_events script_dir"
  by (simp add: bench_duckdb_def duckdb_events_def py_bind_unfold split_def Let_def
      N_ITER_def N_ITER_JOIN_def)

lemma bench_polars_trace:
  "trace (snd (bench_polars lib script_dir w)) = trace w @ polars_events script_dir"
  by (simp add: bench_polars_def polars_events_def py_bind_unfold split_def Let_def
      N_ITER_def N_ITER_JOIN_def run_events_def)

lemma sql_distinct:
  "distinct [sql_q1, sql_q2, sql_q3, sql_q5, sql_q7, sql_s1, sql_s6, sql_j1]"
  by (simp add: sql_q1_def sql_q2_def sql_q3_def sql_q5_def sql_q7_def sql_s1_def sql_s6_def
      sql_j1_def)

lemma pl_distinct:
  "distinct [pl_q1, pl_q2, pl_q3, pl_q5, pl_q7, pl_s1, pl_s6, join_fn]"
  by (simp add: pl_q1_def pl_q2_def pl_q3_def pl_q5_def pl_q7_def pl_s1_def pl_s6_def
      join_fn_def)

lemma tally_step_other:
  "e \<noteq> PerfCounter \<Longrightarrow> \<not> p e \<Longrightarrow> tally_step p s e = s"
  by (simp add: tally_step_def split: prod.splits)

lemma tally_step_perf:
  "tally_step p (b, u, t) PerfCounter = (\<not> b, u, t)"
  by (simp add: tally_step_def)

lemma duckdb_tally:
  "sql \<in> set [sql_q1, sql_q2, sql_q3, sql_q5, sql_q7, sql_s1, sql_s6, sql_j1] \<Longrightarrow>
   tally (\<lambda>e. e = DuckExecute (CreateOrReplaceR sql)) (duckdb_events script_dir)
     = (N_WARMUP, if sql = sql_j1 then 5 else 7)"
  using sql_distinct
  by (auto simp add: tally_def duckdb_events_def tally_run_events tally_step_other
      tally_step_perf)

lemma polars_tally:
  "q \<in> set [pl_q1, pl_q2, pl_q3, pl_q5, pl_q7, pl_s1, pl_s6, join_fn] \<Longrightarrow>
   tally (\<lambda>e. e = PlRun q) (polars_events script_dir)
     = (N_WARMUP, if q = join_fn then 5 else 7)"
  using pl_distinct
  by (auto simp add: tally_def polars_events_def tally_run_events tally_step_other
      tally_step_perf)

lemma bench_polars_j1:
  "\<exists>res v. fst (bench_polars lib script_dir w) = Inr res \<and> res ''j1'' = Some v
     \<and> median (map (\<lambda>i. thunk_secs lib (n_exec w + 70 + N_WARMUP + i) * 1000)
         [0..<nat N_ITER_JOIN]) = Inr v"
  by (simp add: bench_polars_def py_bind_unfold split_def Let_def N_ITER_def N_ITER_JOIN_def
      samples_map [symmetric] N_WARMUP_def)

lemma bench_polars_j1_tally:
  "tally (\<lambda>e. e = PlRun join_fn) (new_events w (snd (bench_polars lib script_dir w)))
     = (N_WARMUP, nat N_ITER_JOIN)"
  by (simp add: bench_polars_trace polars_tally N_ITER_JOIN_def)

text \<open>
  C2: every copy of the measurement protocol (DuckDB's \<^verbatim>\<open>run\<close>, Polars' \<^verbatim>\<open>run\<close>, the
  inline Polars join loop of \<^verbatim>\<open>bench_polars\<close>, and Teide's \<^verbatim>\<open>run_groupby\<close>, \<^verbatim>\<open>run_sort\<close> and
  join block) runs the thunk \<^verbatim>\<open>N_WARMUP\<close> times with no clock read around it, then
  \<^verbatim>\<open>n_iter\<close> times, each between two clock reads; the samples are the wall times of
  exactly those \<^verbatim>\<open>n_iter\<close> calls, in milliseconds, and the reported value is their
  median. With one measured iteration the reported value is the wall time of the
  fourth call. (\<^verbatim>\<open>run_groupby\<close> is taken where its ctypes arrays can be built.)
\<close>

theorem warmup_then_timed_samples:
  assumes "length agg_col_names \<le> length agg_ops"
  shows "fst (duckdb_run lib sql n_iter w)
           = median (map (\<lambda>i. thunk_secs lib (n_exec w + N_WARMUP + i) * 1000) [0..<nat n_iter])
       \<and> new_events w (snd (duckdb_run lib sql n_iter w))
           = replicate N_WARMUP (DuckExecute (CreateOrReplaceR sql))
             @ concat (replicate (nat n_iter)
                 [PerfCounter, DuckExecute (CreateOrReplaceR sql), PerfCounter])
             @ [DuckExecute DropR]
       \<and> n_exec (snd (duckdb_run lib sql n_iter w)) = n_exec w + N_WARMUP + nat n_iter
       \<and> fst (duckdb_run lib sql 1 w) = Inr (thunk_secs lib (n_exec w + 3) * 1000)
       \<and> fst (run_groupby lib tbl key_names agg_ops agg_col_names n_iter w)
           = median (map (\<lambda>i. thunk_secs lib (n_exec w + N_WARMUP + i) * 1000) [0..<nat n_iter])
       \<and> tally is_execute
            (new_events w (snd (run_groupby lib tbl key_names agg_ops agg_col_names n_iter w)))
           = (N_WARMUP, nat n_iter)
       \<and> n_exec (snd (run_groupby lib tbl key_names agg_ops agg_col_names n_iter w))
           = n_exec w + N_WARMUP + nat n_iter
       \<and> fst (run_groupby lib tbl key_names agg_ops agg_col_names 1 w)
           = Inr (thunk_secs lib (n_exec w + 3) * 1000)
       \<and> fst (polars_run lib q n_iter w)
           = median (map (\<lambda>i. thunk_secs lib (n_exec w + N_WARMUP + i) * 1000) [0..<nat n_iter])
       \<and> new_events w (snd (polars_run lib q n_iter w))
           = replicate N_WARMUP (PlRun q)
             @ concat (replicate (nat n_iter) [PerfCounter, PlRun q, PerfCounter])
       \<and> n_exec (snd (polars_run lib q n_iter w)) = n_exec w + N_WARMUP + nat n_iter
       \<and> fst (polars_run lib q 1 w) = Inr (thunk_secs lib (n_exec w + 3) * 1000)
       \<and> (\<exists>res v. fst (bench_polars lib script_dir w) = Inr res \<and> res ''j1'' = Some v
            \<and> median (map (\<lambda>i. thunk_secs lib (n_exec w + 70 + N_WARMUP + i) * 1000)
                [0..<nat N_ITER_JOIN]) = Inr v)
       \<and> tally (\<lambda>e. e = PlRun join_fn) (new_events w (snd (bench_polars lib script_dir w)))
           = (N_WARMUP, nat N_ITER_JOIN)
       \<and> fst (run_sort lib tbl col_names descs n_iter w)
           = median (map (\<lambda>i. thunk_secs lib (n_exec w + N_WARMUP + i) * 1000) [0..<nat n_iter])
       \<and> tally is_execute (new_events w (snd (run_sort lib tbl col_names descs n_iter w)))
           = (N_WARMUP, nat n_iter)
       \<and> n_exec (snd (run_sort lib tbl col_names descs n_iter w))
           = n_exec w + N_WARMUP + nat n_iter
       \<and> fst (run_sort lib tbl col_names descs 1 w) = Inr (thunk_secs lib (n_exec w + 3) * 1000)
       \<and> fst (run_join lib x y w)
           = median (map (\<lambda>i. thunk_secs lib (n_exec w + N_WARMUP + i) * 1000)
               [0..<nat N_ITER_JOIN])
       \<and> tally is_execute (new_events w (snd (run_join lib x y w))) = (N_WARMUP, nat N_ITER_JOIN)
       \<and> n_exec (snd (run_join lib x y w)) = n_exec w + N_WARMUP + nat N_ITER_JOIN"
proof -
  have le: "\<not> length agg_ops < length agg_col_names"
    using assms by simp
  have d1: "fst (duckdb_run lib sql n_iter w)
      = median (map (\<lambda>i. thunk_secs lib (n_exec w + N_WARMUP + i) * 1000) [0..<nat n_iter])"
    by (simp add: samples_map)
  have d2: "new_events w (snd (duckdb_run lib sql n_iter w))
      = replicate N_WARMUP (DuckExecute (CreateOrReplaceR sql))
        @ concat (replicate (nat n_iter)
            [PerfCounter, DuckExecute (CreateOrReplaceR sql), PerfCounter])
        @ [DuckExecute DropR]"
    by (simp add: run_events_def)
  have d3: "n_exec (snd (duckdb_run lib sql n_iter w)) = n_exec w + N_WARMUP + nat n_iter"
    by simp
  have d4: "fst (duckdb_run lib sql 1 w) = Inr (thunk_secs lib (n_exec w + 3) * 1000)"
    by (simp add: N_WARMUP_def)
  have g1: "fst (run_groupby lib tbl key_names agg_ops agg_col_names n_iter w)
      = median (map (\<lambda>i. thunk_secs lib (n_exec w + N_WARMUP + i) * 1000) [0..<nat n_iter])"
    using le by (simp add: samples_map)
  have g2: "tally is_execute
        (new_events w (snd (run_groupby lib tbl key_names agg_ops agg_col_names n_iter w)))
      = (N_WARMUP, nat n_iter)"
    using assms by (simp add: tally_groupby_events)
  have g3: "n_exec (snd (run_groupby lib tbl key_names agg_ops agg_col_names n_iter w))
      = n_exec w + N_WARMUP + nat n_iter"
    using le by simp
  have g4: "fst (run_groupby lib tbl key_names agg_ops agg_col_names 1 w)
      = Inr (thunk_secs lib (n_exec w + 3) * 1000)"
    using le by (simp add: N_WARMUP_def)
  have p1: "fst (polars_run lib q n_iter w)
      = median (map (\<lambda>i. thunk_secs lib (n_exec w + N_WARMUP + i) * 1000) [0..<nat n_iter])"
    by (simp add: samples_map)
  have p2: "new_events w (snd (polars_run lib q n_iter w))
      = replicate N_WARMUP (PlRun q)
        @ concat (replicate (nat n_iter) [PerfCounter, PlRun q, PerfCounter])"
    by (simp add: run_events_def)
  have p3: "n_exec (snd (polars_run lib q n_iter w)) = n_exec w + N_WARMUP + nat n_iter"
    by simp
  have p4: "fst (polars_run lib q 1 w) = Inr (thunk_secs lib (n_exec w + 3) * 1000)"
    by (simp add: N_WARMUP_def)
  have pj1: "\<exists>res v. fst (bench_polars lib script_dir w) = Inr res \<and> res ''j1'' = Some v
      \<and> median (map (\<lambda>i. thunk_secs lib (n_exec w + 70 + N_WARMUP + i) * 1000)
          [0..<nat N_ITER_JOIN]) = Inr v"
    by (rule bench_polars_j1)
  have pj2: "tally (\<lambda>e. e = PlRun join_fn) (new_events w (snd (bench_polars lib script_dir w)))
      = (N_WARMUP, nat N_ITER_JOIN)"
    by (rule bench_polars_j1_tally)
  have s1: "fst (run_sort lib tbl col_names descs n_iter w)
      = median (map (\<lambda>i. thunk_secs lib (n_exec w + N_WARMUP + i) * 1000) [0..<nat n_iter])"
    by (simp add: samples_map)
  have s2: "tally is_execute (new_events w (snd (run_sort lib tbl col_names descs n_iter w)))
      = (N_WARMUP, nat n_iter)"
    by (simp add: tally_sort_events)
  have s3: "n_exec (snd (run_sort lib tbl col_names descs n_iter w))
      = n_exec w + N_WARMUP + nat n_iter"
    by simp
  have s4: "fst (run_sort lib tbl col_names descs 1 w)
      = Inr (thunk_secs lib (n_exec w + 3) * 1000)"
    by (simp add: N_WARMUP_def)
  have j1: "fst (run_join lib x y w)
      = median (map (\<lambda>i. thunk_secs lib (n_exec w + N_WARMUP + i) * 1000)
          [0..<nat N_ITER_JOIN])"
    by (simp add: samples_map del: median_samples)
  have j2: "tally is_execute (new_events w (snd (run_join lib x y w)))
      = (N_WARMUP, nat N_ITER_JOIN)"
    by (simp add: tally_join_events)
  have j3: "n_exec (snd (run_join lib x y w)) = n_exec w + N_WARMUP + nat N_ITER_JOIN"
    by simp
  show ?thesis
    by (intro conjI d1 d2 d3 d4 g1 g2 g3 g4 p1 p2 p3 p4 pj1 pj2 s1 s2 s3 s4 j1 j2 j3)
qed

lemma gt_scan_events:
  "foldl graph_tally_step ((b, u, t), d) (scan_events lib g ks m) = ((b, u, t), d)"
  by (induction ks arbitrary: m) (simp_all add: graph_tally_step_def tally_step_def is_execute_def)

lemma gt_right_key_events:
  "foldl graph_tally_step ((b, u, t), d) (right_key_events lib g y ks m) = ((b, u, t), d)"
  by (induction ks arbitrary: m) (simp_all add: graph_tally_step_def tally_step_def is_execute_def)

lemma gt_warm_events:
  "foldl graph_tally_step ((False, u, t), d) (warm_events lib g r k n) = ((False, u + n, t), d)"
  by (induction n arbitrary: u k)
    (simp_all add: graph_tally_step_def tally_step_def is_execute_def)

lemma gt_timed_events:
  "foldl graph_tally_step ((False, u, t), d) (timed_events lib g r k n) = ((False, u, t + n), d)"
  by (induction n arbitrary: t k)
    (simp_all add: graph_tally_step_def tally_step_def is_execute_def)

lemma gt_loop_events:
  "foldl graph_tally_step ((False, u, t), d) (loop_events lib g r k n)
     = ((False, u + N_WARMUP, t + n), d)"
  by (simp add: loop_events_def gt_warm_events gt_timed_events)

lemma gt_groupby_events:
  "length cs \<le> length ops \<Longrightarrow>
   foldl graph_tally_step ((False, 0, 0), d) (groupby_events lib tbl ks ops cs n k m)
     = ((False, 0, 0), d @ [(N_WARMUP, n)])"
  by (simp add: groupby_events_def Let_def gt_scan_events gt_loop_events
      graph_tally_step_def tally_step_def is_execute_def)

lemma gt_sort_events:
  "foldl graph_tally_step ((False, 0, 0), d) (sort_events lib tbl cs ds n k m)
     = ((False, 0, 0), d @ [(N_WARMUP, n)])"
  by (simp add: sort_events_def Let_def gt_scan_events gt_loop_events
      graph_tally_step_def tally_step_def is_execute_def)

lemma gt_join_events:
  "foldl graph_tally_step ((False, 0, 0), d) (join_events lib x y k m)
     = ((False, 0, 0), d @ [(N_WARMUP, nat N_ITER_JOIN)])"
  by (simp add: join_events_def Let_def gt_scan_events gt_right_key_events gt_loop_events
      graph_tally_step_def tally_step_def is_execute_def
      del: right_key_events.simps scan_events.simps)

lemma teide_graph_tallies:
  "graph_tallies (teide_events lib script_dir k m)
     = [(3, 7), (3, 7), (3, 7), (3, 7), (3, 7), (3, 7), (3, 7), (3, 5)]"
  by (simp add: graph_tallies_def teide_events_def teide_query_events_def Let_def gt_groupby_events gt_sort_events
      gt_join_events N_WARMUP_def N_ITER_JOIN_def graph_tally_step_def tally_step_def
      is_execute_def)

text \<open>
  C6: in each of the three engines, every group-by and sort query is executed 3 times
  outside the clock reads and 7 times between them, and the join query 3 times and 5
  times. For DuckDB and Polars the executions are counted per query text; for Teide
  per graph lifetime, in the order of the run.
\<close>

theorem iterations_per_query:
  "map (\<lambda>sql. tally (\<lambda>e. e = DuckExecute (CreateOrReplaceR sql))
                (new_events w (snd (bench_duckdb lib script_dir w))))
       [sql_q1, sql_q2, sql_q3, sql_q5, sql_q7, sql_s1, sql_s6, sql_j1]
     = [(3, 7), (3, 7), (3, 7), (3, 7), (3, 7), (3, 7), (3, 7), (3, 5)]
   \<and> map (\<lambda>q. tally (\<lambda>e. e = PlRun q) (new_events w (snd (bench_polars lib script_dir w))))
       [pl_q1, pl_q2, pl_q3, pl_q5, pl_q7, pl_s1, pl_s6, join_fn]
     = [(3, 7), (3, 7), (3, 7), (3, 7), (3, 7), (3, 7), (3, 7), (3, 5)]
   \<and> graph_tallies (new_events w (snd (bench_teide lib script_dir w)))
     = [(3, 7), (3, 7), (3, 7), (3, 7), (3, 7), (3, 7), (3, 7), (3, 5)]
   \<and> N_WARMUP = 3 \<and> N_ITER = 7 \<and> N_ITER_JOIN = 5"
proof -
  have d: "map (\<lambda>sql. tally (\<lambda>e. e = DuckExecute (CreateOrReplaceR sql))
                (new_events w (snd (bench_duckdb lib script_dir w))))
       [sql_q1, sql_q2, sql_q3, sql_q5, sql_q7, sql_s1, sql_s6, sql_j1]
     = [(3, 7), (3, 7), (3, 7), (3, 7), (3, 7), (3, 7), (3, 7), (3, 5)]"
    using sql_distinct
    by (simp add: bench_duckdb_trace duckdb_tally N_WARMUP_def)
  have p: "map (\<lambda>q. tally (\<lambda>e. e = PlRun q) (new_events w (snd (bench_polars lib script_dir w))))
       [pl_q1, pl_q2, pl_q3, pl_q5, pl_q7, pl_s1, pl_s6, join_fn]
     = [(3, 7), (3, 7), (3, 7), (3, 7), (3, 7), (3, 7), (3, 7), (3, 5)]"
    using pl_distinct
    by (simp add: bench_polars_trace polars_tally N_WARMUP_def)
  have t: "graph_tallies (new_events w (snd (bench_teide lib script_dir w)))
     = [(3, 7), (3, 7), (3, 7), (3, 7), (3, 7), (3, 7), (3, 7), (3, 5)]"
    by (simp add: bench_teide_trace teide_graph_tallies)
  from d p t show ?thesis
    by (simp add: N_WARMUP_def N_ITER_def N_ITER_JOIN_def)
qed

subsection \<open>The plan monitor over a whole run\<close>

lemma plan_teide_events:
  "monitor plan_step (Idle, []) (teide_events lib script_dir k m)
     = Some (Idle, [(3, 10), (4, 10), (4, 10), (5, 10), (9, 10), (3, 10), (5, 10), (9, 8)])"
  by (simp add: teide_events_def teide_query_events_def Let_def plan_groupby_events
      plan_sort_events plan_join_events plan_step_def N_WARMUP_def N_ITER_JOIN_def)

lemma opt_teide_events:
  "length (filter is_optimize (teide_events lib script_dir k m)) = 8"
  by (simp add: teide_events_def teide_query_events_def Let_def opt_groupby_events
      opt_sort_events opt_join_events is_optimize_def)

text \<open>
  C4: the plan monitor follows one graph at a time. After \<^verbatim>\<open>graph_new\<close> only leaf nodes
  of that graph may be built, then one operator node (\<^verbatim>\<open>group\<close>, \<^verbatim>\<open>sort_op\<close> or \<^verbatim>\<open>join\<close>);
  the next call on the graph must be \<^verbatim>\<open>optimize\<close> applied to the node that operator
  returned; from then on the only calls on the graph are \<^verbatim>\<open>execute\<close> with the root that
  \<^verbatim>\<open>optimize\<close> returned, until \<^verbatim>\<open>graph_free\<close>, which appends to the log the number of nodes
  built and the number of executions. Any other order, a node built after the operator
  node, a second \<^verbatim>\<open>optimize\<close>, a different root, or a graph freed before it was
  optimised makes the monitor fail.

  Every query of the native adapter passes the monitor with one entry in the log: all
  its nodes built (one per key and aggregate column, or per sort column and one
  for the table, and one operator node; nine for the join) and its 3 warm-up plus
  \<^verbatim>\<open>n_iter\<close> measured executions; and it calls \<^verbatim>\<open>optimize\<close> exactly once. The whole run of
  \<^verbatim>\<open>bench_teide\<close> passes with eight entries (seven queries executed 10 times, the join 8
  times) and eight calls of \<^verbatim>\<open>optimize\<close>. (\<^verbatim>\<open>run_groupby\<close> is taken where its ctypes arrays
  can be built.)
\<close>

theorem optimized_once_per_query:
  assumes "length agg_col_names \<le> length agg_ops"
  shows "monitor plan_step (Idle, [])
           (new_events w (snd (run_groupby lib tbl key_names agg_ops agg_col_names n_iter w)))
         = Some (Idle, [(length key_names + length agg_col_names + 1, N_WARMUP + nat n_iter)])
   \<and> length (filter is_optimize
        (new_events w (snd (run_groupby lib tbl key_names agg_ops agg_col_names n_iter w)))) = 1
   \<and> monitor plan_step (Idle, []) (new_events w (snd (run_sort lib tbl col_names descs n_iter w)))
       = Some (Idle, [(length col_names + 2, N_WARMUP + nat n_iter)])
   \<and> length (filter is_optimize
        (new_events w (snd (run_sort lib tbl col_names descs n_iter w)))) = 1
   \<and> monitor plan_step (Idle, []) (new_events w (snd (run_join lib x y w)))
       = Some (Idle, [(9, N_WARMUP + nat N_ITER_JOIN)])
   \<and> length (filter is_optimize (new_events w (snd (run_join lib x y w)))) = 1
   \<and> monitor plan_step (Idle, []) (new_events w (snd (bench_teide lib script_dir w)))
       = Some (Idle, [(3, 10), (4, 10), (4, 10), (5, 10), (9, 10), (3, 10), (5, 10), (9, 8)])
   \<and> length (filter is_optimize (new_events w (snd (bench_teide lib script_dir w)))) = 8"
proof -
  have g1: "monitor plan_step (Idle, [])
        (new_events w (snd (run_groupby lib tbl key_names agg_ops agg_col_names n_iter w)))
      = Some (Idle, [(length key_names + length agg_col_names + 1, N_WARMUP + nat n_iter)])"
    using assms by (simp add: plan_groupby_events)
  have g2: "length (filter is_optimize
        (new_events w (snd (run_groupby lib tbl key_names agg_ops agg_col_names n_iter w)))) = 1"
    using assms by (simp add: opt_groupby_events)
  have s1: "monitor plan_step (Idle, [])
        (new_events w (snd (run_sort lib tbl col_names descs n_iter w)))
      = Some (Idle, [(length col_names + 2, N_WARMUP + nat n_iter)])"
    by (simp add: plan_sort_events)
  have s2: "length (filter is_optimize
        (new_events w (snd (run_sort lib tbl col_names descs n_iter w)))) = 1"
    by (simp add: opt_sort_events)
  have j1: "monitor plan_step (Idle, []) (new_events w (snd (run_join lib x y w)))
      = Some (Idle, [(9, N_WARMUP + nat N_ITER_JOIN)])"
    by (simp add: plan_join_events)
  have j2: "length (filter is_optimize (new_events w (snd (run_join lib x y w)))) = 1"
    by (simp add: opt_join_events)
  have b1: "monitor plan_step (Idle, []) (new_events w (snd (bench_teide lib script_dir w)))
      = Some (Idle, [(3, 10), (4, 10), (4, 10), (5, 10), (9, 10), (3, 10), (5, 10), (9, 8)])"
    by (simp add: bench_teide_trace plan_teide_events)
  have b2: "length (filter is_optimize (new_events w (snd (bench_teide lib script_dir w)))) = 8"
    by (simp add: bench_teide_trace opt_teide_events)
  show ?thesis
    by (intro conjI g1 g2 s1 s2 j1 j2 b1 b2)
qed

lemma join_events_split:
  "join_events lib x y k m = join_build_events lib x y k m @ [GraphFree (new_handle lib m)]"
  by (simp add: join_build_events_def join_events_def Let_def butlast_append
      del: right_key_events.simps scan_events.simps)

subsection \<open>Live graphs\<close>

lemma live_scan_events [simp]: "foldl live_step L (scan_events lib g ks m) = L"
  by (induction ks arbitrary: m) (simp_all add: live_step_def)

lemma live_right_key_events [simp]: "foldl live_step L (right_key_events lib g y ks m) = L"
  by (induction ks arbitrary: m) (simp_all add: live_step_def)

lemma live_warm_events [simp]: "foldl live_step L (warm_events lib g r k n) = L"
  by (induction n arbitrary: k) (simp_all add: live_step_def)

lemma live_timed_events [simp]: "foldl live_step L (timed_events lib g r k n) = L"
  by (induction n arbitrary: k) (simp_all add: live_step_def)

lemma live_loop_events [simp]: "foldl live_step L (loop_events lib g r k n) = L"
  by (simp add: loop_events_def)

lemma live_groupby_events [simp]:
  "foldl live_step L (groupby_events lib tbl ks ops cs n k m) = L"
  by (simp add: groupby_events_def Let_def live_step_def)

lemma live_sort_events [simp]: "foldl live_step L (sort_events lib tbl cs ds n k m) = L"
  by (simp add: sort_events_def Let_def live_step_def)

lemma live_join_events [simp]: "foldl live_step L (join_events lib x y k m) = L"
  by (simp add: join_events_def Let_def live_step_def
      del: right_key_events.simps scan_events.simps)

subsection \<open>No table is released inside a query\<close>

lemma td_scan_events [simp]: "filter (table_teardown T) (scan_events lib g ks m) = []"
  by (induction ks arbitrary: m) (simp_all add: table_teardown_def)

lemma td_right_key_events [simp]:
  "filter (table_teardown T) (right_key_events lib g y ks m) = []"
  by (induction ks arbitrary: m) (simp_all add: table_teardown_def)

lemma td_warm_events:
  "\<forall>i. owned (exec_result lib i) \<longrightarrow> exec_result lib i \<notin> T \<Longrightarrow>
   filter (table_teardown T) (warm_events lib g r k n) = []"
  by (induction n arbitrary: k) (simp_all add: table_teardown_def)

lemma td_timed_events:
  "\<forall>i. owned (exec_result lib i) \<longrightarrow> exec_result lib i \<notin> T \<Longrightarrow>
   filter (table_teardown T) (timed_events lib g r k n) = []"
  by (induction n arbitrary: k) (simp_all add: table_teardown_def)

lemma td_loop_events:
  "\<forall>i. owned (exec_result lib i) \<longrightarrow> exec_result lib i \<notin> T \<Longrightarrow>
   filter (table_teardown T) (loop_events lib g r k n) = []"
  by (simp add: loop_events_def td_warm_events td_timed_events)

lemma td_groupby_events:
  "\<forall>i. owned (exec_result lib i) \<longrightarrow> exec_result lib i \<notin> T \<Longrightarrow>
   filter (table_teardown T) (groupby_events lib tbl ks ops cs n k m) = []"
  by (simp add: groupby_events_def Let_def td_loop_events table_teardown_def)

lemma td_sort_events:
  "\<forall>i. owned (exec_result lib i) \<longrightarrow> exec_result lib i \<notin> T \<Longrightarrow>
   filter (table_teardown T) (sort_events lib tbl cs ds n k m) = []"
  by (simp add: sort_events_def Let_def td_loop_events table_teardown_def)

lemma td_join_events:
  "\<forall>i. owned (exec_result lib i) \<longrightarrow> exec_result lib i \<notin> T \<Longrightarrow>
   filter (table_teardown T) (join_events lib x y k m) = []"
  by (simp add: join_events_def Let_def td_loop_events table_teardown_def
      del: right_key_events.simps scan_events.simps)

lemma teide_query_events_last:
  "teide_query_events lib script_dir k m
     = butlast (teide_query_events lib script_dir k m) @ [GraphFree (new_handle lib (m + 47))]"
proof -
  have "last (teide_query_events lib script_dir k m) = GraphFree (new_handle lib (m + 47))"
    by (simp add: teide_query_events_def Let_def join_events_split)
  moreover have "teide_query_events lib script_dir k m \<noteq> []"
    by (simp add: teide_query_events_def Let_def)
  ultimately show ?thesis
    by (metis append_butlast_last_id)
qed

lemma live_teide_query_events:
  "live_graphs (teide_query_events lib script_dir k m) = []"
  by (simp add: live_graphs_def teide_query_events_def Let_def live_step_def)

lemma td_teide_query_events:
  "\<forall>i. owned (exec_result lib i) \<longrightarrow> exec_result lib i \<notin> T \<Longrightarrow>
   filter (table_teardown T) (teide_query_events lib script_dir k m) = []"
  by (simp add: teide_query_events_def Let_def td_groupby_events
      td_sort_events td_join_events table_teardown_def)

text \<open>
  C5: provided no owned execution result is one of the three table handles, the calls
  of \<^verbatim>\<open>bench_teide\<close> end with the join graph's \<^verbatim>\<open>graph_free\<close>, then \<^verbatim>\<open>release\<close> of y, of x
  and of the group-by table, then \<^verbatim>\<open>sym_destroy\<close> and \<^verbatim>\<open>arena_destroy_all\<close>. Before these,
  no table is released and no global teardown happens, and when the first table is
  released no graph is live: every graph created during the run has been freed.
\<close>

theorem tables_released_after_graphs:
  fixes lib :: env and script_dir :: string
  defines "tbl \<equiv> csv_handle lib (CSV_GROUPBY script_dir)"
    and "x \<equiv> csv_handle lib (CSV_JOIN_X script_dir)"
    and "y \<equiv> csv_handle lib (CSV_JOIN_Y script_dir)"
  assumes fresh: "\<forall>i. owned (exec_result lib i) \<longrightarrow> exec_result lib i \<notin> {tbl, x, y}"
  shows "\<exists>pre. new_events w (snd (bench_teide lib script_dir w))
               = pre @ [GraphFree (new_handle lib (n_new w + 47)),
                        Release y, Release x, Release tbl, SymDestroy, ArenaDestroyAll]
             \<and> live_graphs (pre @ [GraphFree (new_handle lib (n_new w + 47))]) = []
             \<and> filter (table_teardown {tbl, x, y}) pre = []"
proof -
  let ?q = "teide_query_events lib script_dir (n_exec w) (n_new w)"
  let ?g = "GraphFree (new_handle lib (n_new w + 47))"
  have q: "?q = butlast ?q @ [?g]"
    by (rule teide_query_events_last)
  have ev: "new_events w (snd (bench_teide lib script_dir w))
      = butlast ?q @ [?g, Release y, Release x, Release tbl, SymDestroy, ArenaDestroyAll]"
    using q by (simp add: bench_teide_trace teide_events_def tbl_def x_def y_def)
  have lv: "live_graphs (butlast ?q @ [?g]) = []"
    using q live_teide_query_events [of lib script_dir "n_exec w" "n_new w"] by simp
  have "filter (table_teardown {tbl, x, y}) ?q = []"
    using fresh by (rule td_teide_query_events)
  then have "filter (table_teardown {tbl, x, y}) (butlast ?q @ [?g]) = []"
    using q by simp
  then have td: "filter (table_teardown {tbl, x, y}) (butlast ?q) = []"
    by simp
  from ev lv td show ?thesis by blast
qed

theorem warmup_then_timed_samples_witness:
  "length [''v1''] \<le> length [OP_SUM]
   \<and> fst (duckdb_run demo_lib sql_q1 1 world0) = Inr 4000
   \<and> fst (polars_run demo_lib pl_q1 1 world0) = Inr 4000
   \<and> fst (run_groupby demo_lib (Some 99) [''id1''] [OP_SUM] [''v1''] 1 world0) = Inr 4000
   \<and> fst (run_sort demo_lib (Some 99) [''id1''] [0] 1 world0) = Inr 4000
   \<and> n_exec (snd (run_join demo_lib (Some 98) (Some 99) world0)) = 8"
  using warmup_then_timed_samples
    [where agg_col_names = "[''v1'']" and agg_ops = "[OP_SUM]" and lib = demo_lib
       and sql = sql_q1 and q = pl_q1 and n_iter = 1 and w = world0 and tbl = "Some 99"
       and key_names = "[''id1'']" and col_names = "[''id1'']" and descs = "[0]"
       and x = "Some 98" and y = "Some 99" and script_dir = "''/b''"]
  by (simp add: demo_lib_def world0_def N_WARMUP_def N_ITER_JOIN_def)

theorem optimized_once_per_query_witness:
  "length [''v1''] \<le> length [OP_SUM]
   \<and> monitor plan_step (Idle, [])
        (new_events world0 (snd (run_groupby demo_lib (Some 99) [''id1''] [OP_SUM] [''v1''] 7 world0)))
       = Some (Idle, [(3, 10)])
   \<and> length (filter is_optimize
        (new_events world0
           (snd (run_groupby demo_lib (Some 99) [''id1''] [OP_SUM] [''v1''] 7 world0)))) = 1
   \<and> monitor plan_step (Idle, []) (new_events world0 (snd (bench_teide demo_lib ''/b'' world0)))
       = Some (Idle, [(3, 10), (4, 10), (4, 10), (5, 10), (9, 10), (3, 10), (5, 10), (9, 8)])"
  using optimized_once_per_query
    [where agg_col_names = "[''v1'']" and agg_ops = "[OP_SUM]" and lib = demo_lib
       and n_iter = 7 and w = world0 and tbl = "Some 99" and key_names = "[''id1'']"
       and script_dir = "''/b''"]
  by (simp add: N_WARMUP_def)

theorem tables_released_after_graphs_witness:
  "(\<forall>i. \<not> (owned (exec_result demo_lib i)
          \<and> exec_result demo_lib i
              \<in> {csv_handle demo_lib (CSV_GROUPBY ''/b''), csv_handle demo_lib (CSV_JOIN_X ''/b''),
                 csv_handle demo_lib (CSV_JOIN_Y ''/b'')}))
   \<and> (\<exists>pre. new_events world0 (snd (bench_teide demo_lib ''/b'' world0))
          = pre @ [GraphFree (new_handle demo_lib (n_new world0 + 47)),
                   Release (csv_handle demo_lib (CSV_JOIN_Y ''/b'')),
                   Release (csv_handle demo_lib (CSV_JOIN_X ''/b'')),
                   Release (csv_handle demo_lib (CSV_GROUPBY ''/b'')),
                   SymDestroy, ArenaDestroyAll])"
proof -
  have h: "\<forall>i. owned (exec_result demo_lib i) \<longrightarrow>
      exec_result demo_lib i
        \<notin> {csv_handle demo_lib (CSV_GROUPBY ''/b''), csv_handle demo_lib (CSV_JOIN_X ''/b''),
           csv_handle demo_lib (CSV_JOIN_Y ''/b'')}"
    by (simp add: demo_lib_def CSV_GROUPBY_def CSV_JOIN_X_def CSV_JOIN_Y_def DATASETS_def
        path_join_def)
  from tables_released_after_graphs [OF h, of world0] h show ?thesis
    by blast
qed





lemma find_missing:
  "find (\<lambda>path. \<not> path_exists path) [a, b, c]
     = (if \<not> path_exists a then Some a else if \<not> path_exists b then Some b
        else if \<not> path_exists c then Some c else None)"
  by simp

text \<open>
  C7: when one of the three dataset files does not exist, \<^verbatim>\<open>main\<close> prints the one line
  naming the first missing path and exits with status 1; no benchmark function has
  run: the world is unchanged (no engine call, no clock read, no file written) and no
  result has been recorded.
\<close>

theorem missing_dataset_aborts:
  assumes "\<not> (path_exists (CSV_GROUPBY script_dir) \<and> path_exists (CSV_JOIN_X script_dir)
              \<and> path_exists (CSV_JOIN_Y script_dir))"
  shows "let r = main lib fixed dash path_exists script_dir w0;
             missing = (if \<not> path_exists (CSV_GROUPBY script_dir) then CSV_GROUPBY script_dir
                        else if \<not> path_exists (CSV_JOIN_X script_dir) then CSV_JOIN_X script_dir
                        else CSV_JOIN_Y script_dir)
         in \<not> path_exists missing
            \<and> stdout r = [''Dataset not found: '' @ missing]
            \<and> exit_status r = 1
            \<and> final_world r = w0
            \<and> new_events w0 (final_world r) = []
            \<and> results_of r = Map.empty"
  using assms by (auto simp add: main_def Let_def new_events_def)

theorem missing_dataset_aborts_witness:
  "\<not> ((\<lambda>p. p = CSV_GROUPBY ''/b'') (CSV_GROUPBY ''/b'')
       \<and> (\<lambda>p. p = CSV_GROUPBY ''/b'') (CSV_JOIN_X ''/b'')
       \<and> (\<lambda>p. p = CSV_GROUPBY ''/b'') (CSV_JOIN_Y ''/b''))
   \<and> stdout (main demo_lib (\<lambda>d x. ''?'') CHR ''-'' (\<lambda>p. p = CSV_GROUPBY ''/b'') ''/b'' world0)
       = [''Dataset not found: /b/datasets/h2oai_join_1e7/J1_1e7_NA_0_0.csv'']
   \<and> exit_status (main demo_lib (\<lambda>d x. ''?'') CHR ''-'' (\<lambda>p. p = CSV_GROUPBY ''/b'') ''/b'' world0)
       = 1
   \<and> final_world (main demo_lib (\<lambda>d x. ''?'') CHR ''-'' (\<lambda>p. p = CSV_GROUPBY ''/b'') ''/b'' world0)
       = world0"
proof -
  have ne: "CSV_JOIN_X ''/b'' \<noteq> CSV_GROUPBY ''/b''"
    by (simp add: CSV_GROUPBY_def CSV_JOIN_X_def DATASETS_def path_join_def)
  have x: "CSV_JOIN_X ''/b'' = ''/b/datasets/h2oai_join_1e7/J1_1e7_NA_0_0.csv''"
    by (simp add: CSV_JOIN_X_def DATASETS_def path_join_def)
  from ne have h: "\<not> ((\<lambda>p. p = CSV_GROUPBY ''/b'') (CSV_GROUPBY ''/b'')
       \<and> (\<lambda>p. p = CSV_GROUPBY ''/b'') (CSV_JOIN_X ''/b'')
       \<and> (\<lambda>p. p = CSV_GROUPBY ''/b'') (CSV_JOIN_Y ''/b''))"
    by simp
  from missing_dataset_aborts [OF h, of demo_lib "\<lambda>d x. ''?''" "CHR ''-''" world0] ne x h
  show ?thesis
    by (simp add: Let_def)
qed







lemma rng_localI:
  "(\<And>w. f w = (fst (h (rng_state w)), w\<lparr>rng_state := snd (h (rng_state w))\<rparr>)) \<Longrightarrow> rng_local f"
  unfolding rng_local_def by blast

lemma rng_local_randbelow: "rng_local (randbelow rng n)"
  by (rule rng_localI [where h = "rand_below rng n"]) (simp add: randbelow_def split_def Let_def)

lemma rng_local_py_random: "rng_local (py_random rng)"
  by (rule rng_localI [where h = "rand_float rng"]) (simp add: py_random_def split_def Let_def)

lemma rng_local_return: "rng_local (\<lambda>w. (a, w))"
  by (rule rng_localI [where h = "\<lambda>g. (a, g)"]) simp

lemma rng_local_map:
  assumes "rng_local m"
  shows "rng_local (\<lambda>w. (k (fst (m w)), snd (m w)))"
proof -
  from assms obtain h where
    h: "\<And>w. m w = (fst (h (rng_state w)), w\<lparr>rng_state := snd (h (rng_state w))\<rparr>)"
    unfolding rng_local_def by blast
  show ?thesis
    by (rule rng_localI [where h = "\<lambda>g. (k (fst (h g)), snd (h g))"]) (simp add: h)
qed

lemma rng_local_then:
  assumes "rng_local m" and "\<And>a. rng_local (f a)"
  shows "rng_local (\<lambda>w. f (fst (m w)) (snd (m w)))"
proof -
  from assms(1) obtain h where
    h: "\<And>w. m w = (fst (h (rng_state w)), w\<lparr>rng_state := snd (h (rng_state w))\<rparr>)"
    unfolding rng_local_def by blast
  from assms(2) have "\<forall>a. \<exists>ha. \<forall>w. f a w
      = (fst (ha (rng_state w)), w\<lparr>rng_state := snd (ha (rng_state w))\<rparr>)"
    unfolding rng_local_def by blast
  then obtain hf where
    hf: "\<And>a w. f a w = (fst (hf a (rng_state w)), w\<lparr>rng_state := snd (hf a (rng_state w))\<rparr>)"
    by metis
  show ?thesis
    by (rule rng_localI [where h = "\<lambda>g. hf (fst (h g)) (snd (h g))"]) (simp add: h hf)
qed

lemma rng_local_rbind:
  assumes "rng_local m" and "\<And>a. rng_local (f a)"
  shows "rng_local (\<lambda>w. rbind (m w) f)"
proof -
  have eq: "(\<lambda>w. rbind (m w) f)
      = (\<lambda>w. (case fst (m w) of Inl e \<Rightarrow> (\<lambda>w'. (Inl e, w')) | Inr a \<Rightarrow> f a) (snd (m w)))"
    by (rule ext) (simp add: rbind_def split: prod.splits sum.splits)
  have "rng_local (case r of Inl e \<Rightarrow> (\<lambda>w'. (Inl e, w')) | Inr a \<Rightarrow> f a)" for r
    by (cases r) (simp_all add: rng_local_return assms(2))
  from rng_local_then [OF assms(1), of "\<lambda>r. case r of Inl e \<Rightarrow> (\<lambda>w'. (Inl e, w')) | Inr a \<Rightarrow> f a",
      OF this]
  show ?thesis
    by (simp add: eq)
qed

lemma rng_local_randint: "rng_local (randint rng a b)"
proof (cases "b < a")
  case True
  then have "randint rng a b = (\<lambda>w. (Inl ValueError, w))"
    by (simp add: randint_def fun_eq_iff)
  then show ?thesis
    by (simp add: rng_local_return)
next
  case False
  then have "randint rng a b
      = (\<lambda>w. (Inr (a + int (fst (randbelow rng (nat (b - a + 1)) w))),
               snd (randbelow rng (nat (b - a + 1)) w)))"
    by (simp add: randint_def fun_eq_iff split_def Let_def)
  then show ?thesis
    using rng_local_map [OF rng_local_randbelow, of "\<lambda>v. Inr (a + int v)" rng "nat (b - a + 1)"]
    by simp
qed

lemma rng_local_uniform: "rng_local (uniform rng a b)"
proof -
  have "uniform rng a b = (\<lambda>w. (a + (b - a) * fst (py_random rng w), snd (py_random rng w)))"
    by (simp add: uniform_def fun_eq_iff split_def Let_def)
  then show ?thesis
    using rng_local_map [OF rng_local_py_random, of "\<lambda>u. a + (b - a) * u" rng]
    by simp
qed

lemma rng_local_choice: "rng_local (choice rng xs)"
proof (cases "xs = []")
  case True
  then have "choice rng xs = (\<lambda>w. (Inl IndexError, w))"
    by (simp add: choice_def fun_eq_iff)
  then show ?thesis
    by (simp add: rng_local_return)
next
  case False
  then have "choice rng xs
      = (\<lambda>w. ((\<lambda>i. if i < length xs then Inr (xs ! i) else Inl IndexError)
                 (fst (randbelow rng (length xs) w)),
               snd (randbelow rng (length xs) w)))"
    by (simp add: choice_def fun_eq_iff split_def Let_def)
  then show ?thesis
    using rng_local_map [OF rng_local_randbelow,
        of "\<lambda>i. if i < length xs then Inr (xs ! i) else Inl IndexError" rng "length xs"]
    by simp
qed

lemma rng_local_na_or_choice: "rng_local (na_or_choice rng xs)"
proof -
  have "na_or_choice rng xs
      = (\<lambda>w. (\<lambda>u. if u < 0.5 then (\<lambda>w'. (Inr (S []), w')) else choice rng xs)
                (fst (py_random rng w)) (snd (py_random rng w)))"
    by (simp add: na_or_choice_def fun_eq_iff split_def Let_def)
  moreover have "rng_local (if u < 0.5 then (\<lambda>w'. (Inr (S []), w')) else choice rng xs)"
    for u :: real
    by (simp add: rng_local_return rng_local_choice)
  ultimately show ?thesis
    using rng_local_then [OF rng_local_py_random,
        of "\<lambda>u. if u < 0.5 then (\<lambda>w'. (Inr (S []), w')) else choice rng xs" rng]
    by simp
qed

lemma rng_local_last:
  "rng_local (\<lambda>w. let (v3, w1) = uniform rng a b w in (Inr (k v3), w1))"
  using rng_local_map [OF rng_local_uniform, of "\<lambda>v. Inr (k v)" rng a b]
  by (simp add: split_def Let_def)

lemma rng_local_na_row: "rng_local (na_row rng fl ps)"
  unfolding na_row_def
  by (intro rng_local_rbind rng_local_na_or_choice rng_local_choice rng_local_randint
      rng_local_last)

lemma rng_local_plain_row: "rng_local (plain_row rng fl ps)"
  unfolding plain_row_def
  by (intro rng_local_rbind rng_local_choice rng_local_randint rng_local_last)

lemma rng_local_next_row: "rng_local (next_row rng fl ps na_pct)"
proof (cases "0 < na_pct")
  case True
  have br: "(\<lambda>v w. if v \<le> na_pct then na_row rng fl ps w else plain_row rng fl ps w)
      = (\<lambda>v. if v \<le> na_pct then na_row rng fl ps else plain_row rng fl ps)"
    by (intro ext) simp
  have "rng_local (if v \<le> na_pct then na_row rng fl ps else plain_row rng fl ps)" for v
    by (simp add: rng_local_na_row rng_local_plain_row)
  then have "rng_local (\<lambda>w. rbind (randint rng 1 100 w)
      (\<lambda>v. if v \<le> na_pct then na_row rng fl ps else plain_row rng fl ps))"
    by (intro rng_local_rbind rng_local_randint)
  moreover have "next_row rng fl ps na_pct = (\<lambda>w. rbind (randint rng 1 100 w)
      (\<lambda>v. if v \<le> na_pct then na_row rng fl ps else plain_row rng fl ps))"
    using True by (simp add: next_row_def fun_eq_iff br)
  ultimately show ?thesis
    by simp
next
  case False
  then have "next_row rng fl ps na_pct = plain_row rng fl ps"
    by (simp add: next_row_def fun_eq_iff)
  then show ?thesis
    by (simp add: rng_local_plain_row)
qed

lemma rng_local_sim:
  assumes "rng_local f" and "same_view p1 p2 w1 w2"
  shows "fst (f w1) = fst (f w2)" and "same_view p1 p2 (snd (f w1)) (snd (f w2))"
proof -
  from assms(1) obtain h where
    h: "\<And>w. f w = (fst (h (rng_state w)), w\<lparr>rng_state := snd (h (rng_state w))\<rparr>)"
    unfolding rng_local_def by blast
  show "fst (f w1) = fst (f w2)"
    using assms(2) by (simp add: h same_view_def)
  show "same_view p1 p2 (snd (f w1)) (snd (f w2))"
    using assms(2) by (simp add: h same_view_def)
qed

lemma writerow_sim:
  "same_view p1 p2 w1 w2 \<Longrightarrow> same_view p1 p2 (writerow fl p1 row w1) (writerow fl p2 row w2)"
  by (simp add: same_view_def writerow_def write_text_def)

lemma rbind_cases:
  "rbind m f = (case fst m of Inl e \<Rightarrow> (Inl e, snd m) | Inr a \<Rightarrow> f a (snd m))"
  by (cases m) (simp add: rbind_def split: sum.splits)

lemma write_rows_sim:
  "same_view p1 p2 w1 w2 \<Longrightarrow>
   fst (write_rows rng fl p1 ps na_pct n w1) = fst (write_rows rng fl p2 ps na_pct n w2)
   \<and> same_view p1 p2 (snd (write_rows rng fl p1 ps na_pct n w1))
        (snd (write_rows rng fl p2 ps na_pct n w2))"
proof (induction n arbitrary: w1 w2)
  case 0
  then show ?case by simp
next
  case (Suc n)
  note r = rng_local_sim [OF rng_local_next_row Suc.prems, of rng fl ps na_pct]
  show ?case
  proof (cases "fst (next_row rng fl ps na_pct w1)")
    case (Inl e)
    then show ?thesis
      using r by (simp add: rbind_cases)
  next
    case (Inr row)
    then have 2: "fst (next_row rng fl ps na_pct w2) = Inr row"
      using r(1) by simp
    have "same_view p1 p2 (writerow fl p1 row (snd (next_row rng fl ps na_pct w1)))
        (writerow fl p2 row (snd (next_row rng fl ps na_pct w2)))"
      using r(2) by (rule writerow_sim)
    from Suc.IH [OF this] show ?thesis
      by (simp add: rbind_cases Inr 2)
  qed
qed

lemma batches_sim:
  "same_view p1 p2 w1 w2 \<Longrightarrow>
   fst (batches rng fl p1 ps na_pct n_rows rows_written w1)
     = fst (batches rng fl p2 ps na_pct n_rows rows_written w2)
   \<and> same_view p1 p2 (snd (batches rng fl p1 ps na_pct n_rows rows_written w1))
        (snd (batches rng fl p2 ps na_pct n_rows rows_written w2))"
proof (induction rng fl p1 ps na_pct n_rows rows_written w1 arbitrary: w2 rule: batches.induct)
  case (1 rng fl path ps na_pct n_rows rows_written w)
  show ?case
  proof (cases "rows_written < n_rows")
    case False
    then show ?thesis
      using "1.prems" by simp
  next
    case True
    define batch_end where "batch_end = min (rows_written + batch_size) n_rows"
    define m where "m = nat (batch_end - rows_written)"
    note r = write_rows_sim [OF "1.prems", of rng fl ps na_pct m]
    show ?thesis
    proof (cases "fst (write_rows rng fl path ps na_pct m w)")
      case (Inl e)
      then show ?thesis
        using r True
        by (subst batches.simps, subst (2) batches.simps)
          (simp add: rbind_cases Let_def batch_end_def [symmetric] m_def [symmetric])
    next
      case (Inr u)
      then have 2: "fst (write_rows rng fl p2 ps na_pct m w2) = Inr u"
        using r by simp
      have "fst (batches rng fl path ps na_pct n_rows batch_end
                   (snd (write_rows rng fl path ps na_pct m w)))
          = fst (batches rng fl p2 ps na_pct n_rows batch_end
                   (snd (write_rows rng fl p2 ps na_pct m w2)))
        \<and> same_view path p2
            (snd (batches rng fl path ps na_pct n_rows batch_end
                   (snd (write_rows rng fl path ps na_pct m w))))
            (snd (batches rng fl p2 ps na_pct n_rows batch_end
                   (snd (write_rows rng fl p2 ps na_pct m w2))))"
        using r True
        by (intro "1.IH" [where x = batch_end])
          (simp_all add: batch_end_def m_def)
      then show ?thesis
        using True Inr 2
        by (subst batches.simps, subst (2) batches.simps)
          (simp add: rbind_cases Let_def batch_end_def [symmetric] m_def [symmetric])
    qed
  qed
qed

lemma generate_sim:
  "fst (generate_h2oai_groupby rng fl path1 n_rows k na_pct seed w1)
     = fst (generate_h2oai_groupby rng fl path2 n_rows k na_pct seed w2)
   \<and> (k \<noteq> 0 \<longrightarrow>
        same_view path1 path2 (snd (generate_h2oai_groupby rng fl path1 n_rows k na_pct seed w1))
          (snd (generate_h2oai_groupby rng fl path2 n_rows k na_pct seed w2)))"
proof (cases "k = 0")
  case True
  then show ?thesis
    by (simp add: generate_h2oai_groupby_def Let_def)
next
  case False
  have "same_view path1 path2 (writerow fl path1 header (open_w path1 (seed_rng rng seed w1)))
      (writerow fl path2 header (open_w path2 (seed_rng rng seed w2)))"
    by (simp add: same_view_def writerow_def write_text_def open_w_def seed_rng_def)
  from batches_sim [OF this] False show ?thesis
    by (simp add: generate_h2oai_groupby_def Let_def)
qed

lemma rng_local_files:
  assumes "rng_local f"
  shows "files (snd (f w)) = files w"
proof -
  from assms obtain h where
    h: "\<And>w. f w = (fst (h (rng_state w)), w\<lparr>rng_state := snd (h (rng_state w))\<rparr>)"
    unfolding rng_local_def by blast
  show ?thesis
    by (simp add: h)
qed

lemma writerow_files:
  "files w path = Some c \<Longrightarrow> files (writerow fl path row w) path = Some (c @ csv_line fl row)"
  by (simp add: writerow_def write_text_def)

lemma write_rows_shape:
  "files w path = Some c \<Longrightarrow>
   \<exists>rows. length rows \<le> n
     \<and> (fst (write_rows rng fl path ps na_pct n w) = Inr () \<longrightarrow> length rows = n)
     \<and> files (snd (write_rows rng fl path ps na_pct n w)) path
         = Some (c @ concat (map (csv_line fl) rows))"
proof (induction n arbitrary: w c)
  case 0
  then show ?case by simp
next
  case (Suc n)
  have f: "files (snd (next_row rng fl ps na_pct w)) = files w"
    by (rule rng_local_files [OF rng_local_next_row])
  show ?case
  proof (cases "fst (next_row rng fl ps na_pct w)")
    case (Inl e)
    then have "length ([] :: cell list list) \<le> Suc n
        \<and> (fst (write_rows rng fl path ps na_pct (Suc n) w) = Inr () \<longrightarrow>
             length ([] :: cell list list) = Suc n)
        \<and> files (snd (write_rows rng fl path ps na_pct (Suc n) w)) path
            = Some (c @ concat (map (csv_line fl) []))"
      using Suc.prems by (simp add: rbind_cases f)
    then show ?thesis
      by blast
  next
    case (Inr row)
    let ?w = "writerow fl path row (snd (next_row rng fl ps na_pct w))"
    have "files ?w path = Some (c @ csv_line fl row)"
      using Suc.prems by (simp add: writerow_files f)
    from Suc.IH [OF this] obtain rows where
      rows: "length rows \<le> n"
        "fst (write_rows rng fl path ps na_pct n ?w) = Inr () \<longrightarrow> length rows = n"
        "files (snd (write_rows rng fl path ps na_pct n ?w)) path
           = Some ((c @ csv_line fl row) @ concat (map (csv_line fl) rows))"
      by blast
    then have "length (row # rows) \<le> Suc n
        \<and> (fst (write_rows rng fl path ps na_pct (Suc n) w) = Inr () \<longrightarrow>
             length (row # rows) = Suc n)
        \<and> files (snd (write_rows rng fl path ps na_pct (Suc n) w)) path
            = Some (c @ concat (map (csv_line fl) (row # rows)))"
      by (simp add: rbind_cases Inr)
    then show ?thesis
      by blast
  qed
qed

lemma batches_shape:
  "files w path = Some c \<Longrightarrow>
   \<exists>rows. length rows \<le> nat (n_rows - rows_written)
     \<and> (fst (batches rng fl path ps na_pct n_rows rows_written w) = Inr () \<longrightarrow>
          length rows = nat (n_rows - rows_written))
     \<and> files (snd (batches rng fl path ps na_pct n_rows rows_written w)) path
         = Some (c @ concat (map (csv_line fl) rows))"
proof (induction rng fl path ps na_pct n_rows rows_written w arbitrary: c rule: batches.induct)
  case (1 rng fl path ps na_pct n_rows rows_written w)
  show ?case
  proof (cases "rows_written < n_rows")
    case False
    then have "length ([] :: cell list list) \<le> nat (n_rows - rows_written)
        \<and> (fst (batches rng fl path ps na_pct n_rows rows_written w) = Inr () \<longrightarrow>
             length ([] :: cell list list) = nat (n_rows - rows_written))
        \<and> files (snd (batches rng fl path ps na_pct n_rows rows_written w)) path
            = Some (c @ concat (map (csv_line fl) []))"
      using "1.prems" by simp
    then show ?thesis
      by blast
  next
    case True
    define batch_end where "batch_end = min (rows_written + batch_size) n_rows"
    define m where "m = nat (batch_end - rows_written)"
    have be: "rows_written < batch_end" "batch_end \<le> n_rows"
      using True by (simp_all add: batch_end_def batch_size_def)
    from write_rows_shape [OF "1.prems", of m rng fl ps na_pct] obtain rows1 where
      rows1: "length rows1 \<le> m"
        "fst (write_rows rng fl path ps na_pct m w) = Inr () \<longrightarrow> length rows1 = m"
        "files (snd (write_rows rng fl path ps na_pct m w)) path
           = Some (c @ concat (map (csv_line fl) rows1))"
      by blast
    have unf: "batches rng fl path ps na_pct n_rows rows_written w
        = rbind (write_rows rng fl path ps na_pct m w)
            (\<lambda>u w. batches rng fl path ps na_pct n_rows batch_end w)"
      using True
      by (subst batches.simps) (simp add: Let_def batch_end_def [symmetric] m_def [symmetric])
    show ?thesis
    proof (cases "fst (write_rows rng fl path ps na_pct m w)")
      case (Inl e)
      have unf1: "batches rng fl path ps na_pct n_rows rows_written w
          = (Inl e, snd (write_rows rng fl path ps na_pct m w))"
        by (simp add: unf rbind_cases Inl del: batches.simps)
      have "m \<le> nat (n_rows - rows_written)"
        using be by (simp add: m_def)
      then have "length rows1 \<le> nat (n_rows - rows_written)
          \<and> (fst (batches rng fl path ps na_pct n_rows rows_written w) = Inr () \<longrightarrow>
               length rows1 = nat (n_rows - rows_written))
          \<and> files (snd (batches rng fl path ps na_pct n_rows rows_written w)) path
              = Some (c @ concat (map (csv_line fl) rows1))"
        using rows1 by (simp add: unf1 del: batches.simps)
      then show ?thesis
        by blast
    next
      case (Inr u)
      let ?w = "snd (write_rows rng fl path ps na_pct m w)"
      have "\<exists>rows. length rows \<le> nat (n_rows - batch_end)
          \<and> (fst (batches rng fl path ps na_pct n_rows batch_end ?w) = Inr () \<longrightarrow>
               length rows = nat (n_rows - batch_end))
          \<and> files (snd (batches rng fl path ps na_pct n_rows batch_end ?w)) path
              = Some ((c @ concat (map (csv_line fl) rows1)) @ concat (map (csv_line fl) rows))"
        using True rows1(3)
        by (intro "1.IH" [where x = batch_end]) (simp_all add: batch_end_def m_def)
      then obtain rows2 where
        rows2: "length rows2 \<le> nat (n_rows - batch_end)"
          "fst (batches rng fl path ps na_pct n_rows batch_end ?w) = Inr () \<longrightarrow>
             length rows2 = nat (n_rows - batch_end)"
          "files (snd (batches rng fl path ps na_pct n_rows batch_end ?w)) path
             = Some ((c @ concat (map (csv_line fl) rows1)) @ concat (map (csv_line fl) rows2))"
        by blast
      have l1: "length rows1 = m"
        using rows1(2) Inr by simp
      have unf2: "batches rng fl path ps na_pct n_rows rows_written w
          = batches rng fl path ps na_pct n_rows batch_end ?w"
        by (simp add: unf rbind_cases Inr del: batches.simps)
      have ar: "m + nat (n_rows - batch_end) = nat (n_rows - rows_written)"
        using be by (simp add: m_def)
      have "length (rows1 @ rows2) \<le> nat (n_rows - rows_written)
          \<and> (fst (batches rng fl path ps na_pct n_rows rows_written w) = Inr () \<longrightarrow>
               length (rows1 @ rows2) = nat (n_rows - rows_written))
          \<and> files (snd (batches rng fl path ps na_pct n_rows rows_written w)) path
              = Some (c @ concat (map (csv_line fl) (rows1 @ rows2)))"
        using rows2 l1 ar by (auto simp add: unf2 simp del: batches.simps)
      then show ?thesis
        by blast
    qed
  qed
qed

lemma generate_shape:
  assumes "k \<noteq> 0"
  shows "\<exists>rows. length rows \<le> nat n_rows
     \<and> (fst (generate_h2oai_groupby rng fl path n_rows k na_pct seed w) = Inr () \<longrightarrow>
          length rows = nat n_rows)
     \<and> files (snd (generate_h2oai_groupby rng fl path n_rows k na_pct seed w)) path
         = Some (concat (map (csv_line fl) (header # rows)))"
proof -
  have "files (writerow fl path header (open_w path (seed_rng rng seed w))) path
      = Some ([] @ csv_line fl header)"
    by (simp add: writerow_def write_text_def open_w_def seed_rng_def)
  from batches_shape [OF this, of n_rows 0 rng] assms show ?thesis
    by (simp add: generate_h2oai_groupby_def Let_def)
qed

lemma generate_div_zero:
  "fst (generate_h2oai_groupby rng fl path n_rows 0 na_pct seed w) = Inl ZeroDivisionError"
  "files (snd (generate_h2oai_groupby rng fl path n_rows 0 na_pct seed w)) = files w"
  by (simp_all add: generate_h2oai_groupby_def Let_def seed_rng_def)

text \<open>
  C9: the group-by generator is deterministic. Run twice with the same row count,
  cardinality, NA percentage and seed, from any two states of the random number
  generator and of the file system and to any two output paths, it ends the same way
  (normally or with the same exception) and, unless \<^verbatim>\<open>k\<close> is zero, leaves the same bytes
  in the two output files: the header line followed by one line per generated row,
  exactly \<^verbatim>\<open>n_rows\<close> of them when it ends normally. With \<^verbatim>\<open>k = 0\<close> the division
  \<^verbatim>\<open>n_rows // k\<close> raises before the file is opened, and no file is written.
\<close>

theorem generation_deterministic:
  "fst (generate_h2oai_groupby rng fl path1 n_rows k na_pct seed w1)
     = fst (generate_h2oai_groupby rng fl path2 n_rows k na_pct seed w2)
   \<and> (k \<noteq> 0 \<longrightarrow>
        files (snd (generate_h2oai_groupby rng fl path1 n_rows k na_pct seed w1)) path1
          = files (snd (generate_h2oai_groupby rng fl path2 n_rows k na_pct seed w2)) path2
        \<and> (\<exists>rows. length rows \<le> nat n_rows
             \<and> (fst (generate_h2oai_groupby rng fl path1 n_rows k na_pct seed w1) = Inr ()
                  \<longrightarrow> length rows = nat n_rows)
             \<and> files (snd (generate_h2oai_groupby rng fl path1 n_rows k na_pct seed w1)) path1
                 = Some (concat (map (csv_line fl) (header # rows)))))
   \<and> (k = 0 \<longrightarrow>
        fst (generate_h2oai_groupby rng fl path1 n_rows k na_pct seed w1) = Inl ZeroDivisionError
        \<and> files (snd (generate_h2oai_groupby rng fl path1 n_rows k na_pct seed w1)) = files w1)"
proof -
  note s = generate_sim [of rng fl path1 n_rows k na_pct seed w1 path2 w2]
  have 1: "fst (generate_h2oai_groupby rng fl path1 n_rows k na_pct seed w1)
      = fst (generate_h2oai_groupby rng fl path2 n_rows k na_pct seed w2)"
    using s by simp
  have 2: "k \<noteq> 0 \<longrightarrow>
      files (snd (generate_h2oai_groupby rng fl path1 n_rows k na_pct seed w1)) path1
        = files (snd (generate_h2oai_groupby rng fl path2 n_rows k na_pct seed w2)) path2
      \<and> (\<exists>rows. length rows \<le> nat n_rows
           \<and> (fst (generate_h2oai_groupby rng fl path1 n_rows k na_pct seed w1) = Inr ()
                \<longrightarrow> length rows = nat n_rows)
           \<and> files (snd (generate_h2oai_groupby rng fl path1 n_rows k na_pct seed w1)) path1
               = Some (concat (map (csv_line fl) (header # rows))))"
    using s generate_shape [of k n_rows rng fl path1 na_pct seed w1]
    by (simp add: same_view_def)
  have 3: "k = 0 \<longrightarrow>
      fst (generate_h2oai_groupby rng fl path1 n_rows k na_pct seed w1) = Inl ZeroDivisionError
      \<and> files (snd (generate_h2oai_groupby rng fl path1 n_rows k na_pct seed w1)) = files w1"
    by (simp add: generate_div_zero)
  show ?thesis
    by (intro conjI 1 2 3)
qed

theorem generation_deterministic_witness:
  "(2::int) \<noteq> 0
   \<and> fst (generate_h2oai_groupby toy_rng toy_float ''b.csv'' 1 2 0 7
        \<lparr>rng_state = 99, files = [''b.csv'' \<mapsto> ''old'']\<rparr>) = Inr ()
   \<and> files (snd (generate_h2oai_groupby toy_rng toy_float ''b.csv'' 1 2 0 7
        \<lparr>rng_state = 99, files = [''b.csv'' \<mapsto> ''old'']\<rparr>)) ''b.csv''
     = Some (''id1,id2,id3,id4,id5,id6,v1,v2,v3'' @ [CHR 0x0D, CHR 0x0A]
             @ ''id001,id002,id000000001,2,1,2,4,14,75.0'' @ [CHR 0x0D, CHR 0x0A])"
proof -
  have a: "fst (generate_h2oai_groupby toy_rng toy_float ''a.csv'' 1 2 0 7
        \<lparr>rng_state = 0, files = Map.empty\<rparr>) = Inr ()"
    by code_simp
  have b: "files (snd (generate_h2oai_groupby toy_rng toy_float ''a.csv'' 1 2 0 7
        \<lparr>rng_state = 0, files = Map.empty\<rparr>)) ''a.csv''
     = Some (''id1,id2,id3,id4,id5,id6,v1,v2,v3'' @ [CHR 0x0D, CHR 0x0A]
             @ ''id001,id002,id000000001,2,1,2,4,14,75.0'' @ [CHR 0x0D, CHR 0x0A])"
    by code_simp
  from generation_deterministic
    [of toy_rng toy_float "''a.csv''" 1 2 0 7 "\<lparr>rng_state = 0, files = Map.empty\<rparr>"
       "''b.csv''" "\<lparr>rng_state = 99, files = [''b.csv'' \<mapsto> ''old'']\<rparr>"]
    a b
  show ?thesis
    by simp
qed

end
